theory Spec2Isabelle
  imports Main "HOL-Library.AList" "HOL-Library.Sublist" "HOL-Library.Monad_Syntax"
begin

section \<open>Data model\<close>

text \<open>
  The two source files under study are the PDF attribute extractor (\<open>PDFExtractor.ts\<close>) and
  the design token synthesizer and renderer (\<open>DesignTokenExtractor.ts\<close>).

  A JavaScript string is modelled as a \<^typ>\<open>string\<close>, a list of code units; the code units
  of the model are the 256 values of \<^typ>\<open>char\<close>, read as the first 256 code points of
  Unicode (so \<open>CHR 0xED\<close> is the letter i with acute accent of the pattern \<open>s\'imbolo\<close>).

  The optional interface members that no function of the two files reads or writes
  (\<open>cmyk\<close>, \<open>usage\<close>, \<open>weights\<close>, \<open>imageData\<close>, \<open>spacing\<close>, \<open>brandTagline\<close> of the branding
  data; \<open>breakpoints\<close>, \<open>shadows\<close>, \<open>borders\<close>, \<open>description\<close> of the tokens) are left out.
\<close>

datatype ColorCategory = Primary | Secondary | Accent | Neutral

datatype FontCategory = Heading | Body | AccentFont

datatype LogoType = PrimaryLogo | SecondaryLogo | AlternativeLogo | IconLogo

record ColorInfo =
  name :: string
  hex :: string
  rgb :: "string option"
  category :: "ColorCategory option"

record TypographyInfo =
  family :: string
  fontCategory :: "FontCategory option"

record LogoInfo =
  logoName :: string
  logoType :: LogoType
  description :: "string option"

record BrandingData =
  colors :: "ColorInfo list"
  typography :: "TypographyInfo list"
  logos :: "LogoInfo list"
  brandName :: "string option"

text \<open>
  A JavaScript object whose keys are enumerated (\<open>Object.entries\<close>, \<open>JSON.stringify\<close>) is an
  association list in insertion order. The numbers of the token set are the literals of the
  baseline only (\<open>300\<close> ... \<open>800\<close>, \<open>1.2\<close>, \<open>1.5\<close>, \<open>2\<close>); \<open>Number m s\<close> stands for the
  number \<open>m / 10^s\<close>, written without trailing zero.
\<close>

type_synonym 'v obj = "(string \<times> 'v) list"

datatype number = Number nat nat

record ColorTokens =
  primary :: "string obj"
  secondary :: "string obj"
  accent :: "string obj"
  neutral :: "string obj"
  feedback :: "string obj"

record TypographyTokens =
  families :: "string obj"
  weights :: "number obj"
  sizes :: "string obj"
  lineHeights :: "number obj"

record DesignTokens =
  colors' :: ColorTokens
  typography' :: TypographyTokens
  spacing :: "string obj option"
  metadata :: "string obj"

section \<open>Runtime functions used by the code\<close>

text \<open>
  \<open>Number.prototype.toString(radix)\<close> on a non-negative integer: the digits, most
  significant first, lower case.
\<close>

definition digitChar :: "nat \<Rightarrow> char" where
  "digitChar d = ''0123456789abcdefghijklmnopqrstuvwxyz'' ! d"

function toStringRadix :: "nat \<Rightarrow> nat \<Rightarrow> string" where
  "toStringRadix b n =
     (if n < b \<or> b < 2 then [digitChar n] else toStringRadix b (n div b) @ [digitChar (n mod b)])"
  by pat_completeness auto
termination
  by (relation "measure snd") auto

declare toStringRadix.simps [simp del]

text \<open>
  The text a template literal gives for a number of the token set: the integer part, and
  for \<open>s > 0\<close> a point and the \<open>s\<close> fraction digits.
\<close>

definition numberToString :: "number \<Rightarrow> string" where
  "numberToString x =
     (case x of Number m s \<Rightarrow>
        if s = 0 then toStringRadix 10 m
        else (let frac = toStringRadix 10 (m mod 10 ^ s)
              in toStringRadix 10 (m div 10 ^ s) @ ''.'' @ replicate (s - length frac) (CHR ''0'') @ frac))"

text \<open>A template literal prints a missing property as \<open>undefined\<close>.\<close>

definition template :: "string option \<Rightarrow> string" where
  "template v = (case v of None \<Rightarrow> ''undefined'' | Some s \<Rightarrow> s)"

section \<open>Token synthesizer\<close>

definition generateDefaultColorTokens :: ColorTokens where
  "generateDefaultColorTokens = \<lparr>
     primary = [(''50'', ''#e6f0f9''), (''100'', ''#cce0f3''), (''200'', ''#99c2e8''),
                (''300'', ''#66a3dc''), (''400'', ''#3385d1''), (''500'', ''#0066c5''),
                (''600'', ''#00529e''), (''700'', ''#003d76''), (''800'', ''#00294f''),
                (''900'', ''#001427'')],
     secondary = [(''50'', ''#e6f5e6''), (''100'', ''#ccebcc''), (''200'', ''#99d699''),
                (''300'', ''#66c266''), (''400'', ''#33ad33''), (''500'', ''#009900''),
                (''600'', ''#007a00''), (''700'', ''#005c00''), (''800'', ''#003d00''),
                (''900'', ''#001f00'')],
     accent = [(''50'', ''#fef2e6''), (''100'', ''#fde6cc''), (''200'', ''#fbcc99''),
                (''300'', ''#f9b366''), (''400'', ''#f69933''), (''500'', ''#f48000''),
                (''600'', ''#c36600''), (''700'', ''#924d00''), (''800'', ''#613300''),
                (''900'', ''#311a00'')],
     neutral = [(''50'', ''#f7f7f7''), (''100'', ''#e3e3e3''), (''200'', ''#c8c8c8''),
                (''300'', ''#a4a4a4''), (''400'', ''#818181''), (''500'', ''#666666''),
                (''600'', ''#515151''), (''700'', ''#434343''), (''800'', ''#383838''),
                (''900'', ''#121212''), (''white'', ''#ffffff''), (''black'', ''#000000'')],
     feedback = [(''success'', ''#00C851''), (''warning'', ''#FFBB33''),
                (''error'', ''#FF4444''), (''info'', ''#33B5E5'')] \<rparr>"

definition generateDefaultTypographyTokens :: TypographyTokens where
  "generateDefaultTypographyTokens = \<lparr>
     families = [(''heading'', ''Arial, sans-serif''), (''body'', ''Helvetica, Arial, sans-serif'')],
     weights = [(''light'', Number 300 0), (''regular'', Number 400 0), (''medium'', Number 500 0),
                (''semibold'', Number 600 0), (''bold'', Number 700 0),
                (''extraBold'', Number 800 0)],
     sizes = [(''base'', ''16px''), (''xs'', ''0.75rem''), (''sm'', ''0.875rem''), (''md'', ''1rem''),
              (''lg'', ''1.25rem''), (''xl'', ''1.5rem''), (''xxl'', ''2rem''), (''xxxl'', ''3rem'')],
     lineHeights = [(''tight'', Number 12 1), (''normal'', Number 15 1), (''loose'', Number 2 0)] \<rparr>"

definition generateDefaultSpacingTokens :: "string obj" where
  "generateDefaultSpacingTokens =
     [(''base'', ''8px''), (''xs'', ''0.25rem''), (''sm'', ''0.5rem''), (''md'', ''1rem''),
      (''lg'', ''1.5rem''), (''xl'', ''2rem''), (''xxl'', ''3rem'')]"

text \<open>
  An assignment \<open>o[k] = v\<close> replaces the value of an existing key in place and appends a new
  key: \<^const>\<open>AList.update\<close>. (Every key assigned below is either present in the baseline or a
  non-numeric key, so the position JavaScript gives it is the one of the list.)
\<close>

definition convertColorsToTokens :: "ColorInfo list \<Rightarrow> ColorTokens" where
  "convertColorsToTokens cs =
    (let tokens = generateDefaultColorTokens;
         primaryColors = filter (\<lambda>c. category c = Some Primary) cs;
         secondaryColors = filter (\<lambda>c. category c = Some Secondary) cs;
         accentColors = filter (\<lambda>c. category c = Some Accent) cs;
         tokens = (if length primaryColors > 0
                   then tokens\<lparr>primary := AList.update ''500'' (hex (primaryColors ! 0)) (primary tokens)\<rparr>
                   else tokens);
         tokens = (if length secondaryColors > 0
                   then tokens\<lparr>secondary := AList.update ''500'' (hex (secondaryColors ! 0)) (secondary tokens)\<rparr>
                   else tokens);
         tokens = (if length accentColors > 0
                   then tokens\<lparr>accent := AList.update ''500'' (hex (accentColors ! 0)) (accent tokens)\<rparr>
                   else tokens)
     in tokens)"

definition convertTypographyToTokens :: "TypographyInfo list \<Rightarrow> TypographyTokens" where
  "convertTypographyToTokens ts =
    (let tokens = generateDefaultTypographyTokens;
         headingFont = find (\<lambda>t. fontCategory t = Some Heading) ts;
         bodyFont = find (\<lambda>t. fontCategory t = Some Body) ts;
         accentFont = find (\<lambda>t. fontCategory t = Some AccentFont) ts;
         tokens = (case headingFont of
                     Some f \<Rightarrow> tokens\<lparr>families := AList.update ''heading'' (family f @ '', sans-serif'') (families tokens)\<rparr>
                   | None \<Rightarrow> tokens);
         tokens = (case bodyFont of
                     Some f \<Rightarrow> tokens\<lparr>families := AList.update ''body'' (family f @ '', sans-serif'') (families tokens)\<rparr>
                   | None \<Rightarrow> tokens);
         tokens = (case accentFont of
                     Some f \<Rightarrow> tokens\<lparr>families := AList.update ''accent'' (family f @ '', sans-serif'') (families tokens)\<rparr>
                   | None \<Rightarrow> tokens)
     in tokens)"

text \<open>
  \<open>generateDesignTokens\<close> reads the clock (\<open>new Date().toISOString()\<close>); the instant read is
  the parameter \<open>now\<close>. \<open>brandName || 'Marca sin nombre'\<close> takes the fallback for an absent
  and for an empty name.
\<close>

definition generateDesignTokens :: "string \<Rightarrow> BrandingData \<Rightarrow> DesignTokens" where
  "generateDesignTokens now brandingData =
    (let colorTokens = convertColorsToTokens (colors brandingData);
         typographyTokens = convertTypographyToTokens (typography brandingData);
         spacingTokens = generateDefaultSpacingTokens
     in \<lparr> colors' = colorTokens,
          typography' = typographyTokens,
          spacing = Some spacingTokens,
          metadata = [(''brandName'', (case brandName brandingData of
                                        None \<Rightarrow> ''Marca sin nombre''
                                      | Some n \<Rightarrow> if n = [] then ''Marca sin nombre'' else n)),
                      (''version'', ''1.0.0''),
                      (''createdAt'', now)] \<rparr>)"

section \<open>Format renderer\<close>

text \<open>
  Each \<open>forEach\<close> over \<open>Object.entries\<close> appends one line per entry to the accumulated
  text: a left fold over the entries. \<open>if (tokens.typography.families.accent)\<close> is false for
  a missing and for an empty family.
\<close>

definition generateCSSVariables :: "DesignTokens \<Rightarrow> string" where
  "generateCSSVariables tokens =
    (let css = '':root {\<newline>'';
         css = foldl (\<lambda>css (key, value). css @ ''  --color-primary-'' @ key @ '': '' @ value @ '';\<newline>'')
                 css (primary (colors' tokens));
         css = foldl (\<lambda>css (key, value). css @ ''  --color-secondary-'' @ key @ '': '' @ value @ '';\<newline>'')
                 css (secondary (colors' tokens));
         css = foldl (\<lambda>css (key, value). css @ ''  --color-accent-'' @ key @ '': '' @ value @ '';\<newline>'')
                 css (accent (colors' tokens));
         css = foldl (\<lambda>css (key, value). css @ ''  --color-neutral-'' @ key @ '': '' @ value @ '';\<newline>'')
                 css (neutral (colors' tokens));
         css = foldl (\<lambda>css (key, value). css @ ''  --color-'' @ key @ '': '' @ value @ '';\<newline>'')
                 css (feedback (colors' tokens));
         css = css @ ''  --font-family-heading: ''
                 @ template (map_of (families (typography' tokens)) ''heading'') @ '';\<newline>'';
         css = css @ ''  --font-family-body: ''
                 @ template (map_of (families (typography' tokens)) ''body'') @ '';\<newline>'';
         css = (case map_of (families (typography' tokens)) ''accent'' of
                  None \<Rightarrow> css
                | Some a \<Rightarrow> if a = [] then css
                            else css @ ''  --font-family-accent: '' @ a @ '';\<newline>'');
         css = foldl (\<lambda>css (key, value). css @ ''  --font-weight-'' @ key @ '': '' @ numberToString value @ '';\<newline>'')
                 css (weights (typography' tokens));
         css = foldl (\<lambda>css (key, value). css @ ''  --font-size-'' @ key @ '': '' @ value @ '';\<newline>'')
                 css (sizes (typography' tokens));
         css = foldl (\<lambda>css (key, value). css @ ''  --line-height-'' @ key @ '': '' @ numberToString value @ '';\<newline>'')
                 css (lineHeights (typography' tokens));
         css = (case spacing tokens of
                  None \<Rightarrow> css
                | Some sp \<Rightarrow>
                    foldl (\<lambda>css (key, value). css @ ''  --spacing-'' @ key @ '': '' @ value @ '';\<newline>'')
                      css sp);
         css = css @ ''}\<newline>''
     in css)"

definition generateSCSSVariables :: "DesignTokens \<Rightarrow> string" where
  "generateSCSSVariables tokens =
    (let scss = ''// Design Tokens generados a partir de la identidad de marca\<newline>'';
         scss = scss @ ''// Marca: '' @ template (map_of (metadata tokens) ''brandName'') @ ''\<newline>'';
         scss = scss @ ''// Versi'' @ [CHR 0xF3] @ ''n: '' @ template (map_of (metadata tokens) ''version'')
                  @ ''\<newline>\<newline>'';
         scss = scss @ ''// Colores Primarios\<newline>'';
         scss = foldl (\<lambda>scss (key, value). scss @ ''$color-primary-'' @ key @ '': '' @ value @ '';\<newline>'')
                 scss (primary (colors' tokens));
         scss = scss @ ''\<newline>// Colores Secundarios\<newline>'';
         scss = foldl (\<lambda>scss (key, value). scss @ ''$color-secondary-'' @ key @ '': '' @ value @ '';\<newline>'')
                 scss (secondary (colors' tokens));
         scss = scss @ ''\<newline>// Colores de Acento\<newline>'';
         scss = foldl (\<lambda>scss (key, value). scss @ ''$color-accent-'' @ key @ '': '' @ value @ '';\<newline>'')
                 scss (accent (colors' tokens));
         scss = scss @ ''\<newline>// Colores Neutrales\<newline>'';
         scss = foldl (\<lambda>scss (key, value). scss @ ''$color-neutral-'' @ key @ '': '' @ value @ '';\<newline>'')
                 scss (neutral (colors' tokens));
         scss = scss @ ''\<newline>// Colores de Feedback\<newline>'';
         scss = foldl (\<lambda>scss (key, value). scss @ ''$color-'' @ key @ '': '' @ value @ '';\<newline>'')
                 scss (feedback (colors' tokens));
         scss = scss @ ''\<newline>// Tipograf'' @ [CHR 0xED] @ ''a\<newline>'';
         scss = scss @ ''$font-family-heading: ''
                 @ template (map_of (families (typography' tokens)) ''heading'') @ '';\<newline>'';
         scss = scss @ ''$font-family-body: ''
                 @ template (map_of (families (typography' tokens)) ''body'') @ '';\<newline>'';
         scss = (case map_of (families (typography' tokens)) ''accent'' of
                  None \<Rightarrow> scss
                | Some a \<Rightarrow> if a = [] then scss
                            else scss @ ''$font-family-accent: '' @ a @ '';\<newline>'');
         scss = scss @ ''\<newline>// Pesos tipogr'' @ [CHR 0xE1] @ ''ficos\<newline>'';
         scss = foldl (\<lambda>scss (key, value). scss @ ''$font-weight-'' @ key @ '': '' @ numberToString value @ '';\<newline>'')
                 scss (weights (typography' tokens));
         scss = scss @ ''\<newline>// Tama'' @ [CHR 0xF1] @ ''os de fuente\<newline>'';
         scss = foldl (\<lambda>scss (key, value). scss @ ''$font-size-'' @ key @ '': '' @ value @ '';\<newline>'')
                 scss (sizes (typography' tokens));
         scss = scss @ ''\<newline>// Alturas de l'' @ [CHR 0xED] @ ''nea\<newline>'';
         scss = foldl (\<lambda>scss (key, value). scss @ ''$line-height-'' @ key @ '': '' @ numberToString value @ '';\<newline>'')
                 scss (lineHeights (typography' tokens));
         scss = (case spacing tokens of
                  None \<Rightarrow> scss
                | Some sp \<Rightarrow>
                    foldl (\<lambda>scss (key, value). scss @ ''$spacing-'' @ key @ '': '' @ value @ '';\<newline>'')
                      (scss @ ''\<newline>// Espaciado\<newline>'') sp)
     in scss)"

section \<open>Properties of the synthesizer\<close>

lemma filter_find_first:
  "find P xs = Some c \<Longrightarrow> length (filter P xs) > 0 \<and> filter P xs ! 0 = c"
  by (induction xs) (auto split: if_splits)

lemma filter_find_none: "find P xs = None \<Longrightarrow> filter P xs = []"
  by (induction xs) (auto split: if_splits)

text \<open>
  C1 as stated: whenever the profile has a primary colour, every ramp other than the primary
  one equals the baseline. A profile with a primary and a secondary colour refutes it: the
  secondary ramp gets the second colour at its stop 500.
\<close>

definition c1_profile :: BrandingData where
  "c1_profile = \<lparr> colors = [\<lparr>name = ''Color 1'', hex = ''#ff0000'', rgb = None, category = Some Primary\<rparr>,
                            \<lparr>name = ''Color 2'', hex = ''#00ff00'', rgb = None, category = Some Secondary\<rparr>],
                  typography = [], logos = [], brandName = None \<rparr>"

theorem c1_other_ramps_counterexample:
  "category (colors c1_profile ! 0) = Some Primary
   \<and> secondary (colors' (generateDesignTokens ''2024-01-01T00:00:00.000Z'' c1_profile))
       \<noteq> secondary generateDefaultColorTokens
   \<and> map_of (secondary (colors' (generateDesignTokens ''2024-01-01T00:00:00.000Z'' c1_profile))) ''500''
       = Some ''#00ff00''"
  by (simp add: c1_profile_def generateDesignTokens_def convertColorsToTokens_def
      generateDefaultColorTokens_def)

text \<open>
  C1 (amended): if \<open>c\<close> is the first signal of category primary in the profile's colour list,
  the synthesized primary ramp is the baseline ramp with the stop 500 replaced by the hex value
  of \<open>c\<close> and every other stop unchanged; the neutral ramp and the feedback colours equal the
  baseline; the secondary ramp equals the baseline when the profile has no secondary signal,
  and otherwise is the baseline secondary ramp with the stop 500 replaced by the hex value of
  the first secondary signal and every other stop unchanged; the same holds of the accent ramp
  and the accent signals; the typography block equals the baseline when the profile has no
  typography signal.
\<close>

theorem c1_primary_override:
  assumes "find (\<lambda>c. category c = Some Primary) (colors p) = Some c"
  shows "primary (colors' (generateDesignTokens now p)) =
           [(''50'', ''#e6f0f9''), (''100'', ''#cce0f3''), (''200'', ''#99c2e8''),
            (''300'', ''#66a3dc''), (''400'', ''#3385d1''), (''500'', hex c),
            (''600'', ''#00529e''), (''700'', ''#003d76''), (''800'', ''#00294f''),
            (''900'', ''#001427'')]
       \<and> neutral (colors' (generateDesignTokens now p)) = neutral generateDefaultColorTokens
       \<and> feedback (colors' (generateDesignTokens now p)) = feedback generateDefaultColorTokens
       \<and> (find (\<lambda>c. category c = Some Secondary) (colors p) = None \<longrightarrow>
            secondary (colors' (generateDesignTokens now p)) = secondary generateDefaultColorTokens)
       \<and> (find (\<lambda>c. category c = Some Accent) (colors p) = None \<longrightarrow>
            accent (colors' (generateDesignTokens now p)) = accent generateDefaultColorTokens)
       \<and> (typography p = [] \<longrightarrow>
            typography' (generateDesignTokens now p) = generateDefaultTypographyTokens)
       \<and> (\<forall>s. find (\<lambda>c. category c = Some Secondary) (colors p) = Some s \<longrightarrow>
            secondary (colors' (generateDesignTokens now p)) =
              [(''50'', ''#e6f5e6''), (''100'', ''#ccebcc''), (''200'', ''#99d699''),
               (''300'', ''#66c266''), (''400'', ''#33ad33''), (''500'', hex s),
               (''600'', ''#007a00''), (''700'', ''#005c00''), (''800'', ''#003d00''),
               (''900'', ''#001f00'')])
       \<and> (\<forall>a. find (\<lambda>c. category c = Some Accent) (colors p) = Some a \<longrightarrow>
            accent (colors' (generateDesignTokens now p)) =
              [(''50'', ''#fef2e6''), (''100'', ''#fde6cc''), (''200'', ''#fbcc99''),
               (''300'', ''#f9b366''), (''400'', ''#f69933''), (''500'', hex a),
               (''600'', ''#c36600''), (''700'', ''#924d00''), (''800'', ''#613300''),
               (''900'', ''#311a00'')])"
proof -
  from filter_find_first [OF assms]
  have prim: "length (filter (\<lambda>c. category c = Some Primary) (colors p)) > 0"
    and first: "filter (\<lambda>c. category c = Some Primary) (colors p) ! 0 = c"
    by simp_all
  have ramp: "primary (colors' (generateDesignTokens now p)) =
      AList.update ''500'' (hex c) (primary generateDefaultColorTokens)"
    using prim first by (simp add: generateDesignTokens_def convertColorsToTokens_def Let_def)
  have p1: "primary (colors' (generateDesignTokens now p)) =
           [(''50'', ''#e6f0f9''), (''100'', ''#cce0f3''), (''200'', ''#99c2e8''),
            (''300'', ''#66a3dc''), (''400'', ''#3385d1''), (''500'', hex c),
            (''600'', ''#00529e''), (''700'', ''#003d76''), (''800'', ''#00294f''),
            (''900'', ''#001427'')]"
    unfolding ramp by (simp add: generateDefaultColorTokens_def)
  have p2: "neutral (colors' (generateDesignTokens now p)) = neutral generateDefaultColorTokens"
    by (simp add: generateDesignTokens_def convertColorsToTokens_def Let_def)
  have p3: "feedback (colors' (generateDesignTokens now p)) = feedback generateDefaultColorTokens"
    by (simp add: generateDesignTokens_def convertColorsToTokens_def Let_def)
  have p4: "find (\<lambda>c. category c = Some Secondary) (colors p) = None \<longrightarrow>
            secondary (colors' (generateDesignTokens now p)) = secondary generateDefaultColorTokens"
    by (auto dest!: filter_find_none simp: generateDesignTokens_def convertColorsToTokens_def Let_def)
  have p5: "find (\<lambda>c. category c = Some Accent) (colors p) = None \<longrightarrow>
            accent (colors' (generateDesignTokens now p)) = accent generateDefaultColorTokens"
    by (auto dest!: filter_find_none simp: generateDesignTokens_def convertColorsToTokens_def Let_def)
  have p6: "typography p = [] \<longrightarrow>
            typography' (generateDesignTokens now p) = generateDefaultTypographyTokens"
    by (simp add: generateDesignTokens_def convertTypographyToTokens_def Let_def)
  have p7: "secondary (colors' (generateDesignTokens now p)) =
              [(''50'', ''#e6f5e6''), (''100'', ''#ccebcc''), (''200'', ''#99d699''),
               (''300'', ''#66c266''), (''400'', ''#33ad33''), (''500'', hex s),
               (''600'', ''#007a00''), (''700'', ''#005c00''), (''800'', ''#003d00''),
               (''900'', ''#001f00'')]"
    if s: "find (\<lambda>c. category c = Some Secondary) (colors p) = Some s" for s
  proof -
    from filter_find_first [OF s]
    have "secondary (colors' (generateDesignTokens now p)) =
        AList.update ''500'' (hex s) (secondary generateDefaultColorTokens)"
      by (simp add: generateDesignTokens_def convertColorsToTokens_def Let_def)
    then show ?thesis by (simp add: generateDefaultColorTokens_def)
  qed
  have p8: "accent (colors' (generateDesignTokens now p)) =
              [(''50'', ''#fef2e6''), (''100'', ''#fde6cc''), (''200'', ''#fbcc99''),
               (''300'', ''#f9b366''), (''400'', ''#f69933''), (''500'', hex a),
               (''600'', ''#c36600''), (''700'', ''#924d00''), (''800'', ''#613300''),
               (''900'', ''#311a00'')]"
    if a: "find (\<lambda>c. category c = Some Accent) (colors p) = Some a" for a
  proof -
    from filter_find_first [OF a]
    have "accent (colors' (generateDesignTokens now p)) =
        AList.update ''500'' (hex a) (accent generateDefaultColorTokens)"
      by (simp add: generateDesignTokens_def convertColorsToTokens_def Let_def)
    then show ?thesis by (simp add: generateDefaultColorTokens_def)
  qed
  from p1 p2 p3 p4 p5 p6 p7 p8 show ?thesis by blast
qed

definition c1_red_profile :: BrandingData where
  "c1_red_profile = \<lparr> colors = [\<lparr>name = ''Color 1'', hex = ''#ff0000'', rgb = None, category = Some Primary\<rparr>],
                      typography = [], logos = [], brandName = None \<rparr>"

definition c1_mixed_profile :: BrandingData where
  "c1_mixed_profile =
     \<lparr> colors = [\<lparr>name = ''Color 1'', hex = ''#aa0000'', rgb = None, category = Some Primary\<rparr>,
                 \<lparr>name = ''Color 2'', hex = ''#00bb00'', rgb = None, category = Some Secondary\<rparr>,
                 \<lparr>name = ''Color 3'', hex = ''#0000cc'', rgb = None, category = Some Accent\<rparr>,
                 \<lparr>name = ''Color 4'', hex = ''#dddddd'', rgb = None, category = Some Accent\<rparr>,
                 \<lparr>name = ''Extra 1'', hex = ''#111111'', rgb = None, category = Some Primary\<rparr>,
                 \<lparr>name = ''Extra 2'', hex = ''#222222'', rgb = None, category = Some Secondary\<rparr>],
       typography = [], logos = [], brandName = None \<rparr>"

theorem c1_primary_override_witness:
  "find (\<lambda>c. category c = Some Primary) (colors c1_red_profile)
     = Some \<lparr>name = ''Color 1'', hex = ''#ff0000'', rgb = None, category = Some Primary\<rparr>
   \<and> find (\<lambda>c. category c = Some Secondary) (colors c1_red_profile) = None
   \<and> find (\<lambda>c. category c = Some Accent) (colors c1_red_profile) = None
   \<and> typography c1_red_profile = []
   \<and> map_of (primary (colors' (generateDesignTokens ''2024-01-01T00:00:00.000Z'' c1_red_profile))) ''500''
       = Some ''#ff0000''
   \<and> secondary (colors' (generateDesignTokens ''2024-01-01T00:00:00.000Z'' c1_red_profile))
       = secondary generateDefaultColorTokens
   \<and> accent (colors' (generateDesignTokens ''2024-01-01T00:00:00.000Z'' c1_red_profile))
       = accent generateDefaultColorTokens
   \<and> typography' (generateDesignTokens ''2024-01-01T00:00:00.000Z'' c1_red_profile)
       = generateDefaultTypographyTokens
   \<and> find (\<lambda>c. category c = Some Primary) (colors c1_mixed_profile)
       = Some \<lparr>name = ''Color 1'', hex = ''#aa0000'', rgb = None, category = Some Primary\<rparr>
   \<and> find (\<lambda>c. category c = Some Secondary) (colors c1_mixed_profile)
       = Some \<lparr>name = ''Color 2'', hex = ''#00bb00'', rgb = None, category = Some Secondary\<rparr>
   \<and> find (\<lambda>c. category c = Some Accent) (colors c1_mixed_profile)
       = Some \<lparr>name = ''Color 3'', hex = ''#0000cc'', rgb = None, category = Some Accent\<rparr>
   \<and> map_of (primary (colors' (generateDesignTokens ''2024-01-01T00:00:00.000Z'' c1_mixed_profile))) ''500''
       = Some ''#aa0000''
   \<and> map_of (secondary (colors' (generateDesignTokens ''2024-01-01T00:00:00.000Z'' c1_mixed_profile))) ''500''
       = Some ''#00bb00''
   \<and> map_of (accent (colors' (generateDesignTokens ''2024-01-01T00:00:00.000Z'' c1_mixed_profile))) ''500''
       = Some ''#0000cc''
   \<and> map_of (accent (colors' (generateDesignTokens ''2024-01-01T00:00:00.000Z'' c1_mixed_profile))) ''400''
       = Some ''#f69933''"
proof -
  have h: "find (\<lambda>c. category c = Some Primary) (colors c1_red_profile)
     = Some \<lparr>name = ''Color 1'', hex = ''#ff0000'', rgb = None, category = Some Primary\<rparr>"
    by (simp add: c1_red_profile_def)
  have s: "find (\<lambda>c. category c = Some Secondary) (colors c1_red_profile) = None"
    by (simp add: c1_red_profile_def)
  have a: "find (\<lambda>c. category c = Some Accent) (colors c1_red_profile) = None"
    by (simp add: c1_red_profile_def)
  have t: "typography c1_red_profile = []"
    by (simp add: c1_red_profile_def)
  have mh: "find (\<lambda>c. category c = Some Primary) (colors c1_mixed_profile)
       = Some \<lparr>name = ''Color 1'', hex = ''#aa0000'', rgb = None, category = Some Primary\<rparr>"
    by (simp add: c1_mixed_profile_def)
  have ms: "find (\<lambda>c. category c = Some Secondary) (colors c1_mixed_profile)
       = Some \<lparr>name = ''Color 2'', hex = ''#00bb00'', rgb = None, category = Some Secondary\<rparr>"
    by (simp add: c1_mixed_profile_def)
  have ma: "find (\<lambda>c. category c = Some Accent) (colors c1_mixed_profile)
       = Some \<lparr>name = ''Color 3'', hex = ''#0000cc'', rgb = None, category = Some Accent\<rparr>"
    by (simp add: c1_mixed_profile_def)
  from c1_primary_override [OF h, of "''2024-01-01T00:00:00.000Z''"] s a t
  have red: "map_of (primary (colors' (generateDesignTokens ''2024-01-01T00:00:00.000Z'' c1_red_profile))) ''500''
       = Some ''#ff0000''
   \<and> secondary (colors' (generateDesignTokens ''2024-01-01T00:00:00.000Z'' c1_red_profile))
       = secondary generateDefaultColorTokens
   \<and> accent (colors' (generateDesignTokens ''2024-01-01T00:00:00.000Z'' c1_red_profile))
       = accent generateDefaultColorTokens
   \<and> typography' (generateDesignTokens ''2024-01-01T00:00:00.000Z'' c1_red_profile)
       = generateDefaultTypographyTokens"
    by simp
  from c1_primary_override [OF mh, of "''2024-01-01T00:00:00.000Z''"] ms ma
  have mixed: "map_of (primary (colors' (generateDesignTokens ''2024-01-01T00:00:00.000Z'' c1_mixed_profile))) ''500''
       = Some ''#aa0000''
   \<and> map_of (secondary (colors' (generateDesignTokens ''2024-01-01T00:00:00.000Z'' c1_mixed_profile))) ''500''
       = Some ''#00bb00''
   \<and> map_of (accent (colors' (generateDesignTokens ''2024-01-01T00:00:00.000Z'' c1_mixed_profile))) ''500''
       = Some ''#0000cc''
   \<and> map_of (accent (colors' (generateDesignTokens ''2024-01-01T00:00:00.000Z'' c1_mixed_profile))) ''400''
       = Some ''#f69933''"
    by simp
  show ?thesis
    using h s a t mh ms ma red mixed by (intro conjI) simp_all
qed

text \<open>
  C6: two runs of the synthesis on the same profile, at the instants \<open>t1\<close> and \<open>t2\<close>, give
  token sets that agree in the colours, the typography, the spacing and every metadata entry
  but \<open>createdAt\<close>; that entry is the instant of the run.
\<close>

theorem c6_idempotent_modulo_timestamp:
  "colors' (generateDesignTokens t1 p) = colors' (generateDesignTokens t2 p)
   \<and> typography' (generateDesignTokens t1 p) = typography' (generateDesignTokens t2 p)
   \<and> spacing (generateDesignTokens t1 p) = spacing (generateDesignTokens t2 p)
   \<and> map fst (metadata (generateDesignTokens t1 p)) = map fst (metadata (generateDesignTokens t2 p))
   \<and> filter (\<lambda>kv. fst kv \<noteq> ''createdAt'') (metadata (generateDesignTokens t1 p))
       = filter (\<lambda>kv. fst kv \<noteq> ''createdAt'') (metadata (generateDesignTokens t2 p))
   \<and> map_of (metadata (generateDesignTokens t1 p)) ''createdAt'' = Some t1
   \<and> map_of (metadata (generateDesignTokens t2 p)) ''createdAt'' = Some t2
   \<and> (generateDesignTokens t1 p)\<lparr>metadata := AList.update ''createdAt'' t2 (metadata (generateDesignTokens t1 p))\<rparr>
       = generateDesignTokens t2 p"
  by (simp add: generateDesignTokens_def Let_def)

section \<open>Properties of the flat variable rendering\<close>

lemma numberToString_baseline:
  "numberToString (Number 300 0) = ''300''" "numberToString (Number 400 0) = ''400''"
  "numberToString (Number 500 0) = ''500''" "numberToString (Number 600 0) = ''600''"
  "numberToString (Number 700 0) = ''700''" "numberToString (Number 800 0) = ''800''"
  "numberToString (Number 12 1) = ''1.2''" "numberToString (Number 15 1) = ''1.5''"
  "numberToString (Number 2 0) = ''2''"
  "numberToString (Number 12 (Suc 0)) = ''1.2''" "numberToString (Number 15 (Suc 0)) = ''1.5''"
  by (simp_all add: numberToString_def toStringRadix.simps digitChar_def)

lemma primary_convertColorsToTokens:
  "primary (convertColorsToTokens cs) =
     (case find (\<lambda>c. category c = Some Primary) cs of
        None \<Rightarrow> primary generateDefaultColorTokens
      | Some c \<Rightarrow> AList.update ''500'' (hex c) (primary generateDefaultColorTokens))"
  by (auto simp: convertColorsToTokens_def Let_def split: option.splits
      dest: filter_find_first filter_find_none)

lemma secondary_convertColorsToTokens:
  "secondary (convertColorsToTokens cs) =
     (case find (\<lambda>c. category c = Some Secondary) cs of
        None \<Rightarrow> secondary generateDefaultColorTokens
      | Some c \<Rightarrow> AList.update ''500'' (hex c) (secondary generateDefaultColorTokens))"
  by (auto simp: convertColorsToTokens_def Let_def split: option.splits
      dest: filter_find_first filter_find_none)

lemma accent_convertColorsToTokens:
  "accent (convertColorsToTokens cs) =
     (case find (\<lambda>c. category c = Some Accent) cs of
        None \<Rightarrow> accent generateDefaultColorTokens
      | Some c \<Rightarrow> AList.update ''500'' (hex c) (accent generateDefaultColorTokens))"
  by (auto simp: convertColorsToTokens_def Let_def split: option.splits
      dest: filter_find_first filter_find_none)

lemma neutral_convertColorsToTokens:
  "neutral (convertColorsToTokens cs) = neutral generateDefaultColorTokens"
  "feedback (convertColorsToTokens cs) = feedback generateDefaultColorTokens"
  by (simp_all add: convertColorsToTokens_def Let_def)

lemma families_convertTypographyToTokens:
  "families (convertTypographyToTokens ts) =
     [(''heading'', (case find (\<lambda>t. fontCategory t = Some Heading) ts of
                      None \<Rightarrow> ''Arial, sans-serif'' | Some f \<Rightarrow> family f @ '', sans-serif'')),
      (''body'', (case find (\<lambda>t. fontCategory t = Some Body) ts of
                      None \<Rightarrow> ''Helvetica, Arial, sans-serif'' | Some f \<Rightarrow> family f @ '', sans-serif''))]
     @ (case find (\<lambda>t. fontCategory t = Some AccentFont) ts of
          None \<Rightarrow> [] | Some f \<Rightarrow> [(''accent'', family f @ '', sans-serif'')])"
  by (simp add: convertTypographyToTokens_def Let_def generateDefaultTypographyTokens_def
      split: option.splits)

lemma scales_convertTypographyToTokens:
  "weights (convertTypographyToTokens ts) = weights generateDefaultTypographyTokens"
  "sizes (convertTypographyToTokens ts) = sizes generateDefaultTypographyTokens"
  "lineHeights (convertTypographyToTokens ts) = lineHeights generateDefaultTypographyTokens"
  by (simp_all add: convertTypographyToTokens_def Let_def split: option.splits)

definition declLine :: "string \<Rightarrow> string \<Rightarrow> string" where
  "declLine n v = ''  --'' @ n @ '': '' @ v @ '';\<newline>''"

definition colorDeclarations :: "string \<Rightarrow> string \<Rightarrow> string \<Rightarrow> (string \<times> string) list" where
  "colorDeclarations p5 s5 a5 =
    [(''color-primary-50'', ''#e6f0f9''), (''color-primary-100'', ''#cce0f3''),
     (''color-primary-200'', ''#99c2e8''), (''color-primary-300'', ''#66a3dc''),
     (''color-primary-400'', ''#3385d1''), (''color-primary-500'', p5),
     (''color-primary-600'', ''#00529e''), (''color-primary-700'', ''#003d76''),
     (''color-primary-800'', ''#00294f''), (''color-primary-900'', ''#001427''),
     (''color-secondary-50'', ''#e6f5e6''), (''color-secondary-100'', ''#ccebcc''),
     (''color-secondary-200'', ''#99d699''), (''color-secondary-300'', ''#66c266''),
     (''color-secondary-400'', ''#33ad33''), (''color-secondary-500'', s5),
     (''color-secondary-600'', ''#007a00''), (''color-secondary-700'', ''#005c00''),
     (''color-secondary-800'', ''#003d00''), (''color-secondary-900'', ''#001f00''),
     (''color-accent-50'', ''#fef2e6''), (''color-accent-100'', ''#fde6cc''),
     (''color-accent-200'', ''#fbcc99''), (''color-accent-300'', ''#f9b366''),
     (''color-accent-400'', ''#f69933''), (''color-accent-500'', a5),
     (''color-accent-600'', ''#c36600''), (''color-accent-700'', ''#924d00''),
     (''color-accent-800'', ''#613300''), (''color-accent-900'', ''#311a00''),
     (''color-neutral-50'', ''#f7f7f7''), (''color-neutral-100'', ''#e3e3e3''),
     (''color-neutral-200'', ''#c8c8c8''), (''color-neutral-300'', ''#a4a4a4''),
     (''color-neutral-400'', ''#818181''), (''color-neutral-500'', ''#666666''),
     (''color-neutral-600'', ''#515151''), (''color-neutral-700'', ''#434343''),
     (''color-neutral-800'', ''#383838''), (''color-neutral-900'', ''#121212''),
     (''color-neutral-white'', ''#ffffff''), (''color-neutral-black'', ''#000000''),
     (''color-success'', ''#00C851''), (''color-warning'', ''#FFBB33''),
     (''color-error'', ''#FF4444''), (''color-info'', ''#33B5E5'')]"

definition scaleDeclarations :: "(string \<times> string) list" where
  "scaleDeclarations =
    [(''font-weight-light'', ''300''), (''font-weight-regular'', ''400''),
     (''font-weight-medium'', ''500''), (''font-weight-semibold'', ''600''),
     (''font-weight-bold'', ''700''), (''font-weight-extraBold'', ''800''),
     (''font-size-base'', ''16px''), (''font-size-xs'', ''0.75rem''),
     (''font-size-sm'', ''0.875rem''), (''font-size-md'', ''1rem''),
     (''font-size-lg'', ''1.25rem''), (''font-size-xl'', ''1.5rem''),
     (''font-size-xxl'', ''2rem''), (''font-size-xxxl'', ''3rem''),
     (''line-height-tight'', ''1.2''), (''line-height-normal'', ''1.5''),
     (''line-height-loose'', ''2'')]"

definition spacingDeclarations :: "(string \<times> string) list" where
  "spacingDeclarations =
    [(''spacing-base'', ''8px''), (''spacing-xs'', ''0.25rem''), (''spacing-sm'', ''0.5rem''),
     (''spacing-md'', ''1rem''), (''spacing-lg'', ''1.5rem''), (''spacing-xl'', ''2rem''),
     (''spacing-xxl'', ''3rem'')]"

definition rootBlock :: "(string \<times> string) list \<Rightarrow> string" where
  "rootBlock ds = '':root {\<newline>'' @ concat (map (\<lambda>(n, v). declLine n v) ds) @ ''}\<newline>''"

definition cssLeaves :: "DesignTokens \<Rightarrow> (string \<times> string) list" where
  "cssLeaves t =
     map (\<lambda>(k, v). (''color-primary-'' @ k, v)) (primary (colors' t))
   @ map (\<lambda>(k, v). (''color-secondary-'' @ k, v)) (secondary (colors' t))
   @ map (\<lambda>(k, v). (''color-accent-'' @ k, v)) (accent (colors' t))
   @ map (\<lambda>(k, v). (''color-neutral-'' @ k, v)) (neutral (colors' t))
   @ map (\<lambda>(k, v). (''color-'' @ k, v)) (feedback (colors' t))
   @ [(''font-family-heading'', template (map_of (families (typography' t)) ''heading'')),
      (''font-family-body'', template (map_of (families (typography' t)) ''body''))]
   @ (case map_of (families (typography' t)) ''accent'' of
        None \<Rightarrow> [] | Some a \<Rightarrow> if a = [] then [] else [(''font-family-accent'', a)])
   @ map (\<lambda>(k, v). (''font-weight-'' @ k, numberToString v)) (weights (typography' t))
   @ map (\<lambda>(k, v). (''font-size-'' @ k, v)) (sizes (typography' t))
   @ map (\<lambda>(k, v). (''line-height-'' @ k, numberToString v)) (lineHeights (typography' t))
   @ (case spacing t of None \<Rightarrow> [] | Some sp \<Rightarrow> map (\<lambda>(k, v). (''spacing-'' @ k, v)) sp)"

lemma foldl_append_lines:
  "foldl (\<lambda>css p. css @ f p) css kvs = css @ concat (map f kvs)"
  by (induction kvs arbitrary: css) auto

lemma generateCSSVariables_leaves:
  "generateCSSVariables t = rootBlock (cssLeaves t)"
  by (simp add: generateCSSVariables_def Let_def foldl_append_lines rootBlock_def cssLeaves_def
      declLine_def comp_def split_def split: option.splits)

text \<open>
  C8: the flat rendering of a synthesized token set is the root block holding, in this order,
  one declaration for each stop of the four colour ramps and each feedback colour, the
  heading and body families, the accent family exactly when the token set has one, and one
  declaration for each weight, size and line height, followed by the seven spacing
  declarations; with the spacing removed from the token set the spacing declarations, and
  nothing else, disappear. The values \<open>p5\<close>, \<open>s5\<close>, \<open>a5\<close>, \<open>h\<close>, \<open>b\<close> are the ones the token
  set holds. A profile without any signal is one instance: nothing is assumed of \<open>p\<close>.
\<close>

theorem c8_flat_variables:
  "\<exists>p5 s5 a5 h b.
      map_of (primary (colors' (generateDesignTokens now p))) ''500'' = Some p5
    \<and> map_of (secondary (colors' (generateDesignTokens now p))) ''500'' = Some s5
    \<and> map_of (accent (colors' (generateDesignTokens now p))) ''500'' = Some a5
    \<and> map_of (families (typography' (generateDesignTokens now p))) ''heading'' = Some h
    \<and> map_of (families (typography' (generateDesignTokens now p))) ''body'' = Some b
    \<and> generateCSSVariables (generateDesignTokens now p) =
        rootBlock (colorDeclarations p5 s5 a5
          @ [(''font-family-heading'', h), (''font-family-body'', b)]
          @ (case map_of (families (typography' (generateDesignTokens now p))) ''accent'' of
               None \<Rightarrow> [] | Some a \<Rightarrow> [(''font-family-accent'', a)])
          @ scaleDeclarations @ spacingDeclarations)
    \<and> generateCSSVariables ((generateDesignTokens now p)\<lparr>spacing := None\<rparr>) =
        rootBlock (colorDeclarations p5 s5 a5
          @ [(''font-family-heading'', h), (''font-family-body'', b)]
          @ (case map_of (families (typography' (generateDesignTokens now p))) ''accent'' of
               None \<Rightarrow> [] | Some a \<Rightarrow> [(''font-family-accent'', a)])
          @ scaleDeclarations)"
proof -
  let ?T = "generateDesignTokens now p"
  have c: "colors' ?T = convertColorsToTokens (colors p)"
    and t: "typography' ?T = convertTypographyToTokens (typography p)"
    and s: "spacing ?T = Some generateDefaultSpacingTokens"
    by (simp_all add: generateDesignTokens_def Let_def)
  obtain p5 where p5: "primary (colors' ?T) = AList.update ''500'' p5 (primary generateDefaultColorTokens)"
    unfolding c primary_convertColorsToTokens
    by (cases "find (\<lambda>c. category c = Some Primary) (colors p)")
       (auto simp: generateDefaultColorTokens_def)
  obtain s5 where s5: "secondary (colors' ?T) = AList.update ''500'' s5 (secondary generateDefaultColorTokens)"
    unfolding c secondary_convertColorsToTokens
    by (cases "find (\<lambda>c. category c = Some Secondary) (colors p)")
       (auto simp: generateDefaultColorTokens_def)
  obtain a5 where a5: "accent (colors' ?T) = AList.update ''500'' a5 (accent generateDefaultColorTokens)"
    unfolding c accent_convertColorsToTokens
    by (cases "find (\<lambda>c. category c = Some Accent) (colors p)")
       (auto simp: generateDefaultColorTokens_def)
  have n: "neutral (colors' ?T) = neutral generateDefaultColorTokens"
    and f: "feedback (colors' ?T) = feedback generateDefaultColorTokens"
    unfolding c by (simp_all add: neutral_convertColorsToTokens)
  obtain h b acc where fam: "families (typography' ?T) = [(''heading'', h), (''body'', b)] @ acc"
    and acc: "acc = [] \<or> (\<exists>a. acc = [(''accent'', a @ '', sans-serif'')])"
    unfolding t families_convertTypographyToTokens
    by (cases "find (\<lambda>t. fontCategory t = Some AccentFont) (typography p)") auto
  have sc: "weights (typography' ?T) = weights generateDefaultTypographyTokens"
    "sizes (typography' ?T) = sizes generateDefaultTypographyTokens"
    "lineHeights (typography' ?T) = lineHeights generateDefaultTypographyTokens"
    unfolding t by (simp_all add: scales_convertTypographyToTokens)
  have l1: "map_of (primary (colors' ?T)) ''500'' = Some p5"
    "map_of (secondary (colors' ?T)) ''500'' = Some s5"
    "map_of (accent (colors' ?T)) ''500'' = Some a5"
    "map_of (families (typography' ?T)) ''heading'' = Some h"
    "map_of (families (typography' ?T)) ''body'' = Some b"
    by (simp_all add: p5 s5 a5 fam generateDefaultColorTokens_def)
  have leaves: "cssLeaves ?T = colorDeclarations p5 s5 a5
          @ [(''font-family-heading'', h), (''font-family-body'', b)]
          @ (case map_of (families (typography' ?T)) ''accent'' of
               None \<Rightarrow> [] | Some a \<Rightarrow> [(''font-family-accent'', a)])
          @ scaleDeclarations @ spacingDeclarations"
    using acc
    by (auto simp: cssLeaves_def p5 s5 a5 n f fam sc s
        generateDefaultColorTokens_def generateDefaultTypographyTokens_def
        generateDefaultSpacingTokens_def numberToString_baseline template_def
        colorDeclarations_def scaleDeclarations_def spacingDeclarations_def)
  have leaves': "cssLeaves (?T\<lparr>spacing := None\<rparr>) = colorDeclarations p5 s5 a5
          @ [(''font-family-heading'', h), (''font-family-body'', b)]
          @ (case map_of (families (typography' ?T)) ''accent'' of
               None \<Rightarrow> [] | Some a \<Rightarrow> [(''font-family-accent'', a)])
          @ scaleDeclarations"
    using acc
    by (auto simp: cssLeaves_def p5 s5 a5 n f fam sc
        generateDefaultColorTokens_def generateDefaultTypographyTokens_def
        numberToString_baseline template_def
        colorDeclarations_def scaleDeclarations_def)
  show ?thesis
    apply (rule exI [of _ p5], rule exI [of _ s5], rule exI [of _ a5], rule exI [of _ h],
        rule exI [of _ b])
    apply (simp only: l1 leaves leaves' generateCSSVariables_leaves simp_thms)
    done
qed


section \<open>Attribute extractor\<close>

text \<open>
  The character classes of the patterns, on the code units of the model: \<open>[A-Fa-f0-9]\<close>,
  \<open>\d\<close>, \<open>\s\<close> (tab, line feed, vertical tab, form feed, carriage return, space and
  no-break space) and the word characters \<open>[A-Za-z0-9_]\<close> that decide \<open>\b\<close>.
\<close>

definition isHexDigit :: "char \<Rightarrow> bool" where
  "isHexDigit c = (c \<in> set ''0123456789abcdefABCDEF'')"

definition isDigit :: "char \<Rightarrow> bool" where
  "isDigit c = (c \<in> set ''0123456789'')"

definition isSpace :: "char \<Rightarrow> bool" where
  "isSpace c = (c \<in> set [CHR 0x09, CHR 0x0A, CHR 0x0B, CHR 0x0C, CHR 0x0D, CHR 0x20, CHR 0xA0])"

definition isWordChar :: "char \<Rightarrow> bool" where
  "isWordChar c =
     (c \<in> set ''abcdefghijklmnopqrstuvwxyzABCDEFGHIJKLMNOPQRSTUVWXYZ0123456789_'')"

text \<open>
  Case folding. With the flag \<open>i\<close> two code units match when their canonical forms are
  equal: the upper case of the unit (a to z, and the Latin-1 letters \<open>0xE0\<close> to \<open>0xFE\<close>
  except the division sign, lose \<open>0x20\<close>); a unit whose upper case lies outside the model
  stays itself. \<open>toLowerCase\<close> maps A to Z and the Latin-1 capitals to their lower case.
\<close>

definition canonicalize :: "char \<Rightarrow> char" where
  "canonicalize c =
     (let n = (of_char c :: nat)
      in if (97 \<le> n \<and> n \<le> 122) \<or> (224 \<le> n \<and> n \<le> 254 \<and> n \<noteq> 247)
         then char_of (n - 32) else c)"

definition toLowerCase :: "string \<Rightarrow> string" where
  "toLowerCase s =
     map (\<lambda>c. let n = (of_char c :: nat)
              in if (65 \<le> n \<and> n \<le> 90) \<or> (192 \<le> n \<and> n \<le> 222 \<and> n \<noteq> 215)
                 then char_of (n + 32) else c) s"

text \<open>
  \<open>/#([A-Fa-f0-9]{6}|[A-Fa-f0-9]{3})/g\<close>: at a position, the six digit alternative is tried
  before the three digit one; \<open>text.match\<close> collects the matches from left to right, each
  search starting where the previous match ended.
\<close>

definition hexMatchAt :: "string \<Rightarrow> string option" where
  "hexMatchAt s =
     (case s of
        [] \<Rightarrow> None
      | c # rest \<Rightarrow>
          if c \<noteq> CHR ''#'' then None
          else if 6 \<le> length rest \<and> list_all isHexDigit (take 6 rest) then Some (c # take 6 rest)
          else if 3 \<le> length rest \<and> list_all isHexDigit (take 3 rest) then Some (c # take 3 rest)
          else None)"

lemma hexMatchAt_length:
  "hexMatchAt s = Some m \<Longrightarrow> 0 < length m \<and> length m \<le> length s"
  by (auto simp: hexMatchAt_def split: list.splits if_splits)

function hexMatches :: "string \<Rightarrow> string list" where
  "hexMatches [] = []"
| "hexMatches (c # cs) =
     (case hexMatchAt (c # cs) of
        Some m \<Rightarrow> m # hexMatches (drop (length m) (c # cs))
      | None \<Rightarrow> hexMatches cs)"
  by pat_completeness auto
termination
  by (relation "measure length") (auto dest: hexMatchAt_length)


text \<open>
  \<open>/RGB\s*\(\s*(\d{1,3})\s*,\s*(\d{1,3})\s*,\s*(\d{1,3})\s*\)/gi\<close>. Every \<open>\s*\<close> is followed
  by an element that matches no white space, and every \<open>\d{1,3}\<close> by one that matches no
  digit, so backtracking into a shorter run cannot succeed: a match takes the whole run of
  white space, and the whole run of digits, which must have one to three digits. The parts
  of the pattern are applied in sequence to the rest of the input; the result holds the three
  captured groups and what follows the match.
\<close>

definition lit :: "char \<Rightarrow> string \<Rightarrow> string option" where
  "lit p s = (case s of [] \<Rightarrow> None | c # cs \<Rightarrow> if c = p then Some cs else None)"

definition litCI :: "char \<Rightarrow> string \<Rightarrow> string option" where
  "litCI p s =
     (case s of [] \<Rightarrow> None
      | c # cs \<Rightarrow> if canonicalize c = canonicalize p then Some cs else None)"

definition skipSpaces :: "string \<Rightarrow> string" where
  "skipSpaces s = dropWhile isSpace s"

definition digits1to3 :: "string \<Rightarrow> (string \<times> string) option" where
  "digits1to3 s =
     (let ds = takeWhile isDigit s
      in if 1 \<le> length ds \<and> length ds \<le> 3 then Some (ds, dropWhile isDigit s) else None)"

definition rgbMatchAt :: "string \<Rightarrow> (string \<times> string \<times> string \<times> string) option" where
  "rgbMatchAt s =
     do {
       s \<leftarrow> litCI (CHR ''R'') s;
       s \<leftarrow> litCI (CHR ''G'') s;
       s \<leftarrow> litCI (CHR ''B'') s;
       s \<leftarrow> lit (CHR ''('') (skipSpaces s);
       (r, s) \<leftarrow> digits1to3 (skipSpaces s);
       s \<leftarrow> lit (CHR '','') (skipSpaces s);
       (g, s) \<leftarrow> digits1to3 (skipSpaces s);
       s \<leftarrow> lit (CHR '','') (skipSpaces s);
       (b, s) \<leftarrow> digits1to3 (skipSpaces s);
       s \<leftarrow> lit (CHR '')'') (skipSpaces s);
       Some (r, g, b, s)
     }"

text \<open>\<open>parseInt\<close> on a string of decimal digits.\<close>

definition parseInt :: "string \<Rightarrow> nat" where
  "parseInt ds = foldl (\<lambda>n c. 10 * n + (of_char c - 48)) 0 ds"

text \<open>
  The body of the \<open>while\<close> loop for one match. The components are below 1000, so the 32-bit
  shifts do not overflow and \<open>(1 << 24) + (r << 16) + (g << 8) + b\<close> is the sum of natural
  numbers; \<open>slice(1)\<close> drops the first digit of its hexadecimal text.
\<close>

definition rgbStep :: "ColorInfo list \<Rightarrow> string \<times> string \<times> string \<Rightarrow> ColorInfo list" where
  "rgbStep cols m =
     (case m of (m1, m2, m3) \<Rightarrow>
       let rgbText = ''rgb('' @ m1 @ '', '' @ m2 @ '', '' @ m3 @ '')'';
           r = parseInt m1;
           g = parseInt m2;
           b = parseInt m3;
           hx = ''#'' @ drop 1 (toStringRadix 16 (push_bit 24 1 + push_bit 16 r + push_bit 8 g + b))
       in if \<not> list_ex (\<lambda>c. toLowerCase (hex c) = toLowerCase hx) cols
          then cols @ [\<lparr>name = ''Color RGB '' @ toStringRadix 10 (length cols + 1),
                         hex = hx, rgb = Some rgbText, category = None\<rparr>]
          else cols)"

lemma lit_length: "lit p s = Some t \<Longrightarrow> length t < length s"
  by (auto simp: lit_def split: list.splits if_splits)

lemma litCI_length: "litCI p s = Some t \<Longrightarrow> length t < length s"
  by (auto simp: litCI_def split: list.splits if_splits)

lemma skipSpaces_length: "length (skipSpaces s) \<le> length s"
  by (simp add: skipSpaces_def length_dropWhile_le)

lemma digits1to3_length: "digits1to3 s = Some (ds, t) \<Longrightarrow> length t < length s"
proof -
  assume a: "digits1to3 s = Some (ds, t)"
  then have "ds = takeWhile isDigit s" "t = dropWhile isDigit s" "1 \<le> length ds"
    by (auto simp: digits1to3_def Let_def split: if_splits)
  moreover have "length (takeWhile isDigit s) + length (dropWhile isDigit s) = length s"
    by (metis length_append takeWhile_dropWhile_id)
  ultimately show ?thesis by simp
qed

lemma lit_skipSpaces_length: "lit p (skipSpaces s) = Some t \<Longrightarrow> length t < length s"
  using lit_length [of p "skipSpaces s" t] skipSpaces_length [of s] by simp

lemma digits1to3_skipSpaces_length:
  "digits1to3 (skipSpaces s) = Some (ds, t) \<Longrightarrow> length t < length s"
  using digits1to3_length [of "skipSpaces s" ds t] skipSpaces_length [of s] by simp

lemma rgbMatchAt_length:
  "rgbMatchAt s = Some (r, g, b, t) \<Longrightarrow> length t < length s"
  by (auto simp: rgbMatchAt_def split: Option.bind_splits
      dest!: lit_skipSpaces_length litCI_length digits1to3_skipSpaces_length)

function rgbLoop :: "string \<Rightarrow> ColorInfo list \<Rightarrow> ColorInfo list" where
  "rgbLoop [] cols = cols"
| "rgbLoop (c # cs) cols =
     (case rgbMatchAt (c # cs) of
        Some (m1, m2, m3, rest) \<Rightarrow> rgbLoop rest (rgbStep cols (m1, m2, m3))
      | None \<Rightarrow> rgbLoop cs cols)"
  by pat_completeness auto
termination
  by (relation "measure (\<lambda>(s, cols). length s)") (auto dest: rgbMatchAt_length)

definition extractColors :: "string \<Rightarrow> ColorInfo list" where
  "extractColors text =
     (let cols = [];
          hexMatches = hexMatches text;
          cols = foldl (\<lambda>cols (index, hx).
                      cols @ [\<lparr>name = ''Color '' @ toStringRadix 10 (index + 1),
                               hex = hx, rgb = None,
                               category = Some (if index = 0 then Primary
                                                else if index = 1 then Secondary else Accent)\<rparr>])
                   cols (enumerate 0 hexMatches)
      in rgbLoop text cols)"

section \<open>Properties of the colour extraction\<close>

definition hexSignal :: "nat \<Rightarrow> string \<Rightarrow> ColorInfo" where
  "hexSignal index hx =
     \<lparr>name = ''Color '' @ toStringRadix 10 (index + 1), hex = hx, rgb = None,
      category = Some (if index = 0 then Primary else if index = 1 then Secondary else Accent)\<rparr>"

lemma foldl_push_map:
  "foldl (\<lambda>acc x. acc @ [f x]) acc xs = acc @ map f xs"
  by (induction xs arbitrary: acc) auto

lemma rgbStep_prefix: "\<exists>new. rgbStep cols m = cols @ new \<and> list_all (\<lambda>c. category c = None \<and> rgb c \<noteq> None) new"
  by (cases m) (auto simp: rgbStep_def Let_def)

lemma rgbLoop_prefix:
  "\<exists>new. rgbLoop s cols = cols @ new \<and> list_all (\<lambda>c. category c = None \<and> rgb c \<noteq> None) new"
proof (induction s cols rule: rgbLoop.induct)
  case (1 cols)
  then show ?case by simp
next
  case (2 c cs cols)
  show ?case
  proof (cases "rgbMatchAt (c # cs)")
    case None
    with 2 show ?thesis by simp
  next
    case (Some a)
    obtain m1 m2 m3 rest where a: "a = (m1, m2, m3, rest)" by (cases a) auto
    from rgbStep_prefix [of cols "(m1, m2, m3)"] obtain n1 where
      n1: "rgbStep cols (m1, m2, m3) = cols @ n1" "list_all (\<lambda>c. category c = None \<and> rgb c \<noteq> None) n1"
      by blast
    from 2(2) [OF Some [unfolded a] refl refl refl] obtain n2 where
      n2: "rgbLoop rest (rgbStep cols (m1, m2, m3)) = rgbStep cols (m1, m2, m3) @ n2"
        "list_all (\<lambda>c. category c = None \<and> rgb c \<noteq> None) n2"
      by blast
    show ?thesis
      using Some a n1 n2 by (intro exI [of _ "n1 @ n2"]) simp
  qed
qed

definition hexSignals :: "string \<Rightarrow> ColorInfo list" where
  "hexSignals text = map (\<lambda>(index, hx). hexSignal index hx) (enumerate 0 (hexMatches text))"

lemma extractColors_hex_pass:
  "extractColors text = rgbLoop text (hexSignals text)"
  by (simp add: extractColors_def Let_def hexSignal_def hexSignals_def foldl_push_map split_def)

fun literalsAt :: "string \<Rightarrow> string list" where
  "literalsAt [] = []"
| "literalsAt (c # cs) =
     (case hexMatchAt (c # cs) of Some m \<Rightarrow> m # literalsAt cs | None \<Rightarrow> literalsAt cs)"

lemma isHexDigit_not_hash: "isHexDigit c \<Longrightarrow> c \<noteq> CHR ''#''"
  by (auto simp: isHexDigit_def)

lemma literalsAt_skip_digits:
  "list_all isHexDigit ds \<Longrightarrow> literalsAt (ds @ s) = literalsAt s"
  by (induction ds) (auto simp: hexMatchAt_def dest: isHexDigit_not_hash)

lemma hexMatchAt_shape:
  assumes "hexMatchAt s = Some m"
  shows "\<exists>ds rest. m = CHR ''#'' # ds \<and> s = m @ rest \<and> (length ds = 6 \<or> length ds = 3)
           \<and> list_all isHexDigit ds"
proof -
  from assms obtain cs where s: "s = CHR ''#'' # cs"
    by (cases s) (auto simp: hexMatchAt_def split: if_splits)
  from assms s consider
      (six) "m = CHR ''#'' # take 6 cs" "6 \<le> length cs" "list_all isHexDigit (take 6 cs)"
    | (three) "m = CHR ''#'' # take 3 cs" "3 \<le> length cs" "list_all isHexDigit (take 3 cs)"
    by (auto simp: hexMatchAt_def split: if_splits)
  then show ?thesis
  proof cases
    case six
    then show ?thesis
      using s by (intro exI [of _ "take 6 cs"] exI [of _ "drop 6 cs"]) simp
  next
    case three
    then show ?thesis
      using s by (intro exI [of _ "take 3 cs"] exI [of _ "drop 3 cs"]) simp
  qed
qed

lemma hexMatches_literalsAt: "hexMatches s = literalsAt s"
proof (induction s rule: hexMatches.induct)
  case 1
  then show ?case by simp
next
  case (2 c cs)
  show ?case
  proof (cases "hexMatchAt (c # cs)")
    case None
    with 2 show ?thesis by simp
  next
    case (Some m)
    from hexMatchAt_shape [OF Some] obtain ds rest where
      m: "m = CHR ''#'' # ds" "c # cs = m @ rest" "list_all isHexDigit ds"
      by blast
    then have cs: "cs = ds @ rest" by simp
    have "hexMatches (c # cs) = m # hexMatches (drop (length m) (c # cs))"
      using Some by simp
    also have "drop (length m) (c # cs) = rest"
      using m(2) by simp
    also have "hexMatches rest = literalsAt rest"
      using 2(2) [OF Some] m(2) by simp
    also have "literalsAt rest = literalsAt cs"
      unfolding cs using m(3) by (simp add: literalsAt_skip_digits)
    finally show ?thesis using Some by simp
  qed
qed

lemma literalsAt_shape:
  "list_all (\<lambda>m. \<exists>ds. m = CHR ''#'' # ds \<and> (length ds = 6 \<or> length ds = 3) \<and> list_all isHexDigit ds)
     (literalsAt s)"
proof (induction s)
  case Nil
  then show ?case by simp
next
  case (Cons c cs)
  show ?case
  proof (cases "hexMatchAt (c # cs)")
    case None
    with Cons show ?thesis by simp
  next
    case (Some m)
    from hexMatchAt_shape [OF Some] Cons Some show ?thesis by auto
  qed
qed

text \<open>
  The literals in the words of the claim, read off the text position by position and
  without the matcher: a literal stands at the position \<open>i\<close> when the code unit there is \<open>#\<close>
  and the six code units after it are hexadecimal digits, or else the three after it are;
  it is \<open>#\<close> with those six, or else three, digits. \<open>hexLiterals\<close> lists the literals of all
  the positions in document order.
\<close>

definition hexLiteralAt :: "string \<Rightarrow> nat \<Rightarrow> string option" where
  "hexLiteralAt text i =
     (if i < length text \<and> text ! i = CHR ''#''
      then (let six = take 6 (drop (i + 1) text);
                three = take 3 (drop (i + 1) text)
            in if length six = 6 \<and> list_all isHexDigit six then Some (CHR ''#'' # six)
               else if length three = 3 \<and> list_all isHexDigit three then Some (CHR ''#'' # three)
               else None)
      else None)"

definition hexLiterals :: "string \<Rightarrow> string list" where
  "hexLiterals text = List.map_filter (hexLiteralAt text) [0..<length text]"

lemma hexLiteralAt_hexMatchAt:
  "i < length s \<Longrightarrow> hexLiteralAt s i = hexMatchAt (drop i s)"
  by (cases "drop i s")
     (auto simp: hexLiteralAt_def hexMatchAt_def Let_def hd_drop_conv_nth
           simp flip: drop_Suc Cons_nth_drop_Suc dest: sym)

lemma hexLiteralAt_Suc:
  "hexLiteralAt (c # cs) (Suc i) = hexLiteralAt cs i"
  by (simp add: hexLiteralAt_def Let_def)

lemma literalsAt_hexLiterals: "literalsAt s = hexLiterals s"
proof (induction s)
  case Nil
  then show ?case by (simp add: hexLiterals_def List.map_filter_simps)
next
  case (Cons c cs)
  have up: "[0..<length (c # cs)] = 0 # map Suc [0..<length cs]"
    by (simp add: upt_conv_Cons map_Suc_upt del: upt_Suc)
  have tl: "List.map_filter (hexLiteralAt (c # cs)) (map Suc [0..<length cs]) = hexLiterals cs"
    by (simp add: hexLiterals_def List.map_filter_def filter_map comp_def hexLiteralAt_Suc)
  have hd: "hexLiteralAt (c # cs) 0 = hexMatchAt (c # cs)"
    using hexLiteralAt_hexMatchAt [of 0 "c # cs"] by simp
  show ?case
    unfolding hexLiterals_def up
    by (simp add: List.map_filter_simps hd tl Cons.IH split: option.splits)
qed

text \<open>
  C2: the result of \<open>extractColors\<close> begins with one signal per match of the hex pattern, in
  the order of the matches: the signal of the match number \<open>index\<close> (from 0) is named
  \<open>Color {index+1}\<close>, carries the matched text as hex value and the category primary for
  index 0, secondary for index 1 and accent for every later one; what follows these signals
  has no category. The matches are the literals found at the positions of the text from left
  to right (\<open>literalsAt\<close>): no literal is lost to the resumption of the search after a match.
  Each is \<open>#\<close> followed by six or by three hexadecimal digits. Every literal becomes a signal:
  the matches are exactly the literals of the claim (\<open>hexLiterals\<close>), one for each position
  where \<open>#\<close> is followed by six or by three hexadecimal digits, six where there are six. The
  example of the spec, three codes in a sentence, gives the three signals named and categorized
  as stated; a text with codes of three, seven, two and five digits gives the signals of the
  first three digits, of the first six, none, and of the first three.
\<close>

theorem c2_hex_pattern_signals:
  "(\<exists>rest. extractColors text =
       map (\<lambda>(index, hx).
              \<lparr>name = ''Color '' @ toStringRadix 10 (index + 1), hex = hx, rgb = None,
               category = Some (if index = 0 then Primary
                                else if index = 1 then Secondary else Accent)\<rparr>)
           (enumerate 0 (hexMatches text)) @ rest
       \<and> list_all (\<lambda>c. category c = None \<and> rgb c \<noteq> None) rest)
   \<and> hexMatches text = literalsAt text
   \<and> list_all (\<lambda>m. \<exists>ds. m = CHR ''#'' # ds \<and> (length ds = 6 \<or> length ds = 3)
                      \<and> list_all isHexDigit ds) (hexMatches text)
   \<and> extractColors ''Azul #111111, verde #222222 y rojo #333333.'' =
       [\<lparr>name = ''Color 1'', hex = ''#111111'', rgb = None, category = Some Primary\<rparr>,
        \<lparr>name = ''Color 2'', hex = ''#222222'', rgb = None, category = Some Secondary\<rparr>,
        \<lparr>name = ''Color 3'', hex = ''#333333'', rgb = None, category = Some Accent\<rparr>]
   \<and> hexMatches text = hexLiterals text
   \<and> (\<exists>rest. extractColors text =
         map (\<lambda>(index, hx).
                \<lparr>name = ''Color '' @ toStringRadix 10 (index + 1), hex = hx, rgb = None,
                 category = Some (if index = 0 then Primary
                                  else if index = 1 then Secondary else Accent)\<rparr>)
             (enumerate 0 (hexLiterals text)) @ rest
         \<and> list_all (\<lambda>c. category c = None \<and> rgb c \<noteq> None) rest)
   \<and> extractColors ''Tono #abc, fondo #A1b2C3d y borde #12; #12345g'' =
       [\<lparr>name = ''Color 1'', hex = ''#abc'', rgb = None, category = Some Primary\<rparr>,
        \<lparr>name = ''Color 2'', hex = ''#A1b2C3'', rgb = None, category = Some Secondary\<rparr>,
        \<lparr>name = ''Color 3'', hex = ''#123'', rgb = None, category = Some Accent\<rparr>]"
proof -
  have 1: "\<exists>rest. extractColors text =
       map (\<lambda>(index, hx).
              \<lparr>name = ''Color '' @ toStringRadix 10 (index + 1), hex = hx, rgb = None,
               category = Some (if index = 0 then Primary
                                else if index = 1 then Secondary else Accent)\<rparr>)
           (enumerate 0 (hexMatches text)) @ rest
       \<and> list_all (\<lambda>c. category c = None \<and> rgb c \<noteq> None) rest"
    using rgbLoop_prefix [of "text" "hexSignals text"]
    unfolding extractColors_hex_pass hexSignals_def hexSignal_def by simp
  have 2: "hexMatches text = literalsAt text" by (rule hexMatches_literalsAt)
  have 3: "list_all (\<lambda>m. \<exists>ds. m = CHR ''#'' # ds \<and> (length ds = 6 \<or> length ds = 3)
                      \<and> list_all isHexDigit ds) (hexMatches text)"
    unfolding 2 by (rule literalsAt_shape)
  have 4: "extractColors ''Azul #111111, verde #222222 y rojo #333333.'' =
       [\<lparr>name = ''Color 1'', hex = ''#111111'', rgb = None, category = Some Primary\<rparr>,
        \<lparr>name = ''Color 2'', hex = ''#222222'', rgb = None, category = Some Secondary\<rparr>,
        \<lparr>name = ''Color 3'', hex = ''#333333'', rgb = None, category = Some Accent\<rparr>]"
    by code_simp
  have 5: "hexMatches text = hexLiterals text"
    unfolding 2 by (rule literalsAt_hexLiterals)
  have 6: "\<exists>rest. extractColors text =
         map (\<lambda>(index, hx).
                \<lparr>name = ''Color '' @ toStringRadix 10 (index + 1), hex = hx, rgb = None,
                 category = Some (if index = 0 then Primary
                                  else if index = 1 then Secondary else Accent)\<rparr>)
             (enumerate 0 (hexLiterals text)) @ rest
         \<and> list_all (\<lambda>c. category c = None \<and> rgb c \<noteq> None) rest"
    using 1 unfolding 5 .
  have 7: "extractColors ''Tono #abc, fondo #A1b2C3d y borde #12; #12345g'' =
       [\<lparr>name = ''Color 1'', hex = ''#abc'', rgb = None, category = Some Primary\<rparr>,
        \<lparr>name = ''Color 2'', hex = ''#A1b2C3'', rgb = None, category = Some Secondary\<rparr>,
        \<lparr>name = ''Color 3'', hex = ''#123'', rgb = None, category = Some Accent\<rparr>]"
    by code_simp
  show ?thesis
    by (intro conjI 1 2 3 4 5 6 7)
qed

unbundle bit_operations_syntax

function rgbMatches :: "string \<Rightarrow> (string \<times> string \<times> string) list" where
  "rgbMatches [] = []"
| "rgbMatches (c # cs) =
     (case rgbMatchAt (c # cs) of
        Some (m1, m2, m3, rest) \<Rightarrow> (m1, m2, m3) # rgbMatches rest
      | None \<Rightarrow> rgbMatches cs)"
  by pat_completeness auto
termination
  by (relation "measure length") (auto dest: rgbMatchAt_length)

definition zeroPad6 :: "string \<Rightarrow> string" where
  "zeroPad6 s = replicate (6 - length s) (CHR ''0'') @ s"

lemma rgbLoop_foldl: "rgbLoop s cols = foldl rgbStep cols (rgbMatches s)"
  by (induction s cols rule: rgbLoop.induct) (auto split: option.splits)

lemma toStringRadix_leading_one:
  "0 < k \<Longrightarrow> n < 16 ^ k \<Longrightarrow>
     toStringRadix 16 (16 ^ k + n) =
       CHR ''1'' # replicate (k - length (toStringRadix 16 n)) (CHR ''0'') @ toStringRadix 16 n"
proof (induction k arbitrary: n)
  case 0
  then show ?case by simp
next
  case (Suc k)
  show ?case
  proof (cases "k = 0")
    case True
    with Suc.prems have n: "n < 16" by simp
    then have d: "(16 + n) div 16 = 1" "(16 + n) mod 16 = n" by simp_all
    have "toStringRadix 16 (16 + n) = toStringRadix 16 1 @ [digitChar n]"
      using d by (subst toStringRadix.simps) simp
    moreover have "toStringRadix 16 1 = ''1''"
      by (simp add: toStringRadix.simps [of 16 "Suc 0"] digitChar_def)
    moreover have "toStringRadix 16 n = [digitChar n]"
      using n by (simp add: toStringRadix.simps [of 16 n])
    ultimately show ?thesis
      using True by simp
  next
    case False
    then have k: "0 < k" by simp
    from Suc.prems have nd: "n div 16 < 16 ^ k" by (simp add: less_mult_imp_div_less)
    have split: "(16 ^ Suc k + n) div 16 = 16 ^ k + n div 16" "(16 ^ Suc k + n) mod 16 = n mod 16"
      by simp_all
    have big: "\<not> (16 ^ Suc k + n < (16::nat))"
      by (simp add: not_less trans_le_add1)
    have "toStringRadix 16 (16 ^ Suc k + n) =
        toStringRadix 16 (16 ^ k + n div 16) @ [digitChar (n mod 16)]"
      using big split by (subst toStringRadix.simps) simp
    also have "\<dots> = CHR ''1'' # replicate (k - length (toStringRadix 16 (n div 16))) (CHR ''0'')
        @ toStringRadix 16 (n div 16) @ [digitChar (n mod 16)]"
      using Suc.IH [OF k nd] by simp
    also have "replicate (k - length (toStringRadix 16 (n div 16))) (CHR ''0'')
        @ toStringRadix 16 (n div 16) @ [digitChar (n mod 16)]
      = replicate (Suc k - length (toStringRadix 16 n)) (CHR ''0'') @ toStringRadix 16 n"
    proof (cases "n < 16")
      case True
      then have "toStringRadix 16 n = [digitChar n]" "toStringRadix 16 (n div 16) = ''0''"
        by (simp_all add: toStringRadix.simps [of 16 n] toStringRadix.simps [of 16 0] digitChar_def)
      moreover obtain j where "k = Suc j" using k by (cases k) auto
      ultimately show ?thesis
        using True by (simp add: replicate_append_same)
    next
      case False
      then have "toStringRadix 16 n = toStringRadix 16 (n div 16) @ [digitChar (n mod 16)]"
        by (subst toStringRadix.simps) simp
      then show ?thesis by simp
    qed
    finally show ?thesis .
  qed
qed

lemma push_bit_add_eq_or:
  fixes a b :: nat
  assumes "b < 2 ^ n"
  shows "push_bit n a + b = push_bit n a OR b"
proof -
  have "take_bit n b = b" using assms by (simp add: take_bit_nat_eq_self)
  then have "push_bit n a AND b = push_bit n a AND take_bit n b" by simp
  also have "\<dots> = 0" by (rule bit_eqI) (auto simp: bit_simps)
  finally show ?thesis by (rule disjunctive_add_eq_or)
qed

lemma channel_packing:
  fixes r g b :: nat
  assumes "g \<le> 255" "b \<le> 255"
  shows "push_bit 16 r + push_bit 8 g + b = (push_bit 16 r OR push_bit 8 g) OR b"
proof -
  have "push_bit 16 r + push_bit 8 g = push_bit 8 (push_bit 8 r + g)"
    by (simp add: push_bit_eq_mult)
  also have "\<dots> = push_bit 8 (push_bit 8 r OR g)"
    using assms(1) by (simp add: push_bit_add_eq_or)
  also have "\<dots> = push_bit 16 r OR push_bit 8 g"
    by (simp add: push_bit_or)
  finally have 1: "push_bit 16 r + push_bit 8 g = push_bit 16 r OR push_bit 8 g" .
  have "push_bit 16 r + push_bit 8 g + b = push_bit 8 (push_bit 8 r + g) + b"
    by (simp add: push_bit_eq_mult)
  also have "\<dots> = push_bit 8 (push_bit 8 r + g) OR b"
    using assms(2) by (simp add: push_bit_add_eq_or)
  also have "push_bit 8 (push_bit 8 r + g) = push_bit 16 r OR push_bit 8 g"
    using 1 by (simp add: push_bit_eq_mult)
  finally show ?thesis .
qed

lemma rgb_hex_text:
  fixes r g b :: nat
  assumes "r \<le> 255" "g \<le> 255" "b \<le> 255"
  shows "''#'' @ drop 1 (toStringRadix 16 (push_bit 24 1 + push_bit 16 r + push_bit 8 g + b))
       = ''#'' @ zeroPad6 (toStringRadix 16 ((push_bit 16 r OR push_bit 8 g) OR b))"
proof -
  let ?n = "push_bit 16 r + push_bit 8 g + b"
  have n: "?n < 16 ^ 6" using assms by (simp add: push_bit_eq_mult)
  have eq: "push_bit 24 1 + push_bit 16 r + push_bit 8 g + b = 16 ^ 6 + ?n"
    by (simp add: push_bit_eq_mult)
  have "toStringRadix 16 (push_bit 24 1 + push_bit 16 r + push_bit 8 g + b)
      = toStringRadix 16 (16 ^ 6 + ?n)"
    by (simp only: eq)
  also have "\<dots> = CHR ''1'' # zeroPad6 (toStringRadix 16 ?n)"
    unfolding zeroPad6_def by (rule toStringRadix_leading_one) (use n in simp_all)
  finally show ?thesis
    using channel_packing [OF assms(2,3), of r] by simp
qed

lemma rgbStep_spec:
  assumes "parseInt m1 \<le> 255" "parseInt m2 \<le> 255" "parseInt m3 \<le> 255"
  shows "rgbStep cols (m1, m2, m3) =
    (let hx = ''#'' @ zeroPad6 (toStringRadix 16
                 ((push_bit 16 (parseInt m1) OR push_bit 8 (parseInt m2)) OR parseInt m3))
     in if list_ex (\<lambda>c. toLowerCase (hex c) = toLowerCase hx) cols then cols
        else cols @ [\<lparr>name = ''Color RGB '' @ toStringRadix 10 (length cols + 1), hex = hx,
                       rgb = Some (''rgb('' @ m1 @ '', '' @ m2 @ '', '' @ m3 @ '')''),
                       category = None\<rparr>])"
  unfolding rgbStep_def Let_def prod.case rgb_hex_text [OF assms] by simp

text \<open>
  C3: let \<open>(m1, m2, m3)\<close> be the captures of the match number \<open>k\<close> of the RGB pattern, each
  component at most 255, and \<open>before\<close> the list of signals when the loop reaches that match.
  The hex value computed for the match is \<open>#\<close> followed by the hexadecimal text of
  \<open>r<<16 | g<<8 | b\<close> padded with zeros to six digits. If \<open>before\<close> holds a signal with that
  hex value, compared in lower case, the list is unchanged; otherwise one signal is appended,
  with that hex value, the text \<open>rgb(r, g, b)\<close> and no category. The whole result is the
  hex-pattern signals, which all have a category, followed by signals without category.
\<close>

theorem c3_rgb_conversion:
  assumes "k < length (rgbMatches text)"
    and "rgbMatches text ! k = (m1, m2, m3)"
    and "parseInt m1 \<le> 255" and "parseInt m2 \<le> 255" and "parseInt m3 \<le> 255"
  shows "(let before = foldl rgbStep (hexSignals text) (take k (rgbMatches text));
              hx = ''#'' @ zeroPad6 (toStringRadix 16
                     ((push_bit 16 (parseInt m1) OR push_bit 8 (parseInt m2)) OR parseInt m3))
          in foldl rgbStep (hexSignals text) (take (Suc k) (rgbMatches text)) =
               (if list_ex (\<lambda>c. toLowerCase (hex c) = toLowerCase hx) before then before
                else before @ [\<lparr>name = ''Color RGB '' @ toStringRadix 10 (length before + 1),
                                 hex = hx,
                                 rgb = Some (''rgb('' @ m1 @ '', '' @ m2 @ '', '' @ m3 @ '')''),
                                 category = None\<rparr>]))
       \<and> extractColors text = foldl rgbStep (hexSignals text) (rgbMatches text)
       \<and> (\<exists>rest. extractColors text = hexSignals text @ rest
             \<and> list_all (\<lambda>c. category c = None) rest)
       \<and> list_all (\<lambda>c. category c \<noteq> None) (hexSignals text)"
proof -
  have "take (Suc k) (rgbMatches text) = take k (rgbMatches text) @ [(m1, m2, m3)]"
    using assms(1,2) by (simp add: take_Suc_conv_app_nth)
  then have 1: "foldl rgbStep (hexSignals text) (take (Suc k) (rgbMatches text))
      = rgbStep (foldl rgbStep (hexSignals text) (take k (rgbMatches text))) (m1, m2, m3)"
    by simp
  have 2: "extractColors text = foldl rgbStep (hexSignals text) (rgbMatches text)"
    by (simp add: extractColors_hex_pass rgbLoop_foldl)
  from rgbLoop_prefix [of "text" "hexSignals text"] obtain rest where
    "extractColors text = hexSignals text @ rest"
    "list_all (\<lambda>c. category c = None \<and> rgb c \<noteq> None) rest"
    unfolding extractColors_hex_pass by blast
  then have 3: "\<exists>rest. extractColors text = hexSignals text @ rest
             \<and> list_all (\<lambda>c. category c = None) rest"
    by (auto simp: list_all_iff)
  have 4: "list_all (\<lambda>c. category c \<noteq> None) (hexSignals text)"
    by (auto simp: list_all_iff hexSignals_def hexSignal_def)
  show ?thesis
    unfolding 1 rgbStep_spec [OF assms(3-5)] using 2 3 4 by (simp add: Let_def)
qed

definition c3_text :: string where
  "c3_text = ''Azul corporativo #0066C5, RGB(0, 102, 197); rojo rgb( 255 ,0, 0 )''"

lemma c3_text_matches: "0 < length (rgbMatches c3_text)" by code_simp
lemma c3_text_first: "rgbMatches c3_text ! 0 = (''0'', ''102'', ''197'')" by code_simp
lemma c3_text_r: "parseInt ''0'' \<le> 255" by (simp add: parseInt_def)
lemma c3_text_g: "parseInt ''102'' \<le> 255" by (simp add: parseInt_def)
lemma c3_text_b: "parseInt ''197'' \<le> 255" by (simp add: parseInt_def)
lemma c3_text_hexSignals: "hexSignals c3_text =
      [\<lparr>name = ''Color 1'', hex = ''#0066C5'', rgb = None, category = Some Primary\<rparr>]"
    by code_simp
lemma c3_text_rgbMatches: "rgbMatches c3_text = [(''0'', ''102'', ''197''), (''255'', ''0'', ''0'')]"
    by code_simp
lemma c3_text_present: "list_ex (\<lambda>c. toLowerCase (hex c) = toLowerCase ''#0066c5'') (hexSignals c3_text)"
    by code_simp

lemma c3_text_hex: "''#'' @ zeroPad6 (toStringRadix 16
          ((push_bit 16 (parseInt ''0'') OR push_bit 8 (parseInt ''102'')) OR parseInt ''197''))
       = ''#0066c5''"
    apply (simp add: parseInt_def)
    apply (simp add: zeroPad6_def toStringRadix.simps digitChar_def)
    apply (simp add: numeral_2_eq_2)
    done

theorem c3_rgb_conversion_witness:
  "0 < length (rgbMatches c3_text)
   \<and> rgbMatches c3_text ! 0 = (''0'', ''102'', ''197'')
   \<and> parseInt ''0'' \<le> 255 \<and> parseInt ''102'' \<le> 255 \<and> parseInt ''197'' \<le> 255
   \<and> ''#'' @ zeroPad6 (toStringRadix 16
          ((push_bit 16 (parseInt ''0'') OR push_bit 8 (parseInt ''102'')) OR parseInt ''197''))
       = ''#0066c5''
   \<and> foldl rgbStep (hexSignals c3_text) (take (Suc 0) (rgbMatches c3_text)) = hexSignals c3_text
   \<and> extractColors c3_text =
       [\<lparr>name = ''Color 1'', hex = ''#0066C5'', rgb = None, category = Some Primary\<rparr>,
        \<lparr>name = ''Color RGB 2'', hex = ''#ff0000'', rgb = Some ''rgb(255, 0, 0)'', category = None\<rparr>]"
proof -
  have before: "foldl rgbStep (hexSignals c3_text) (take 0 (rgbMatches c3_text)) = hexSignals c3_text"
    by simp
  note c3 = c3_rgb_conversion [OF c3_text_matches c3_text_first c3_text_r c3_text_g c3_text_b]
  from c3 have skip: "foldl rgbStep (hexSignals c3_text) (take (Suc 0) (rgbMatches c3_text))
      = hexSignals c3_text"
    unfolding Let_def before c3_text_hex using c3_text_present by (simp only: if_True)
  have s2: "rgbStep [\<lparr>name = ''Color 1'', hex = ''#0066C5'', rgb = None, category = Some Primary\<rparr>]
        (''255'', ''0'', ''0'') =
       [\<lparr>name = ''Color 1'', hex = ''#0066C5'', rgb = None, category = Some Primary\<rparr>,
        \<lparr>name = ''Color RGB 2'', hex = ''#ff0000'', rgb = Some ''rgb(255, 0, 0)'', category = None\<rparr>]"
    apply (simp add: rgbStep_def Let_def parseInt_def)
    apply (simp add: toStringRadix.simps digitChar_def toLowerCase_def)
    done
  from c3 have "extractColors c3_text = foldl rgbStep (hexSignals c3_text) (rgbMatches c3_text)"
    by (rule conjunct1 [OF conjunct2])
  also have "\<dots> = rgbStep (foldl rgbStep (hexSignals c3_text) (take (Suc 0) (rgbMatches c3_text)))
       (''255'', ''0'', ''0'')"
    by (simp add: c3_text_rgbMatches)
  also have "\<dots> =
       [\<lparr>name = ''Color 1'', hex = ''#0066C5'', rgb = None, category = Some Primary\<rparr>,
        \<lparr>name = ''Color RGB 2'', hex = ''#ff0000'', rgb = Some ''rgb(255, 0, 0)'', category = None\<rparr>]"
    by (simp only: skip) (simp only: c3_text_hexSignals s2)
  finally have all: "extractColors c3_text =
       [\<lparr>name = ''Color 1'', hex = ''#0066C5'', rgb = None, category = Some Primary\<rparr>,
        \<lparr>name = ''Color RGB 2'', hex = ''#ff0000'', rgb = Some ''rgb(255, 0, 0)'', category = None\<rparr>]" .
  show ?thesis
    by (intro conjI c3_text_matches c3_text_first c3_text_r c3_text_g c3_text_b c3_text_hex skip all)
qed

lemma rgbStep_dedup:
  "\<exists>new. rgbStep cols m = cols @ new \<and> length new \<le> 1
         \<and> set (map (\<lambda>c. toLowerCase (hex c)) new) \<inter> set (map (\<lambda>c. toLowerCase (hex c)) cols) = {}"
  by (cases m) (auto simp: rgbStep_def Let_def list_ex_iff)

lemma rgbLoop_dedup:
  "\<exists>new. rgbLoop s cols = cols @ new
         \<and> distinct (map (\<lambda>c. toLowerCase (hex c)) new)
         \<and> set (map (\<lambda>c. toLowerCase (hex c)) new) \<inter> set (map (\<lambda>c. toLowerCase (hex c)) cols) = {}"
proof (induction s cols rule: rgbLoop.induct)
  case (1 cols)
  then show ?case by simp
next
  case (2 c cs cols)
  show ?case
  proof (cases "rgbMatchAt (c # cs)")
    case None
    with 2 show ?thesis by simp
  next
    case (Some a)
    obtain m1 m2 m3 rest where a: "a = (m1, m2, m3, rest)" by (cases a) auto
    from rgbStep_dedup [of cols "(m1, m2, m3)"] obtain n1 where
      n1: "rgbStep cols (m1, m2, m3) = cols @ n1" "length n1 \<le> 1"
        "set (map (\<lambda>c. toLowerCase (hex c)) n1) \<inter> set (map (\<lambda>c. toLowerCase (hex c)) cols) = {}"
      by blast
    from 2(2) [OF Some [unfolded a] refl refl refl] obtain n2 where
      n2: "rgbLoop rest (rgbStep cols (m1, m2, m3)) = rgbStep cols (m1, m2, m3) @ n2"
        "distinct (map (\<lambda>c. toLowerCase (hex c)) n2)"
        "set (map (\<lambda>c. toLowerCase (hex c)) n2)
           \<inter> set (map (\<lambda>c. toLowerCase (hex c)) (rgbStep cols (m1, m2, m3))) = {}"
      by blast
    have d1: "distinct (map (\<lambda>c. toLowerCase (hex c)) n1)"
      using n1(2) by (cases n1) auto
    have "rgbLoop (c # cs) cols = cols @ (n1 @ n2)"
      using Some a n1(1) n2(1) by simp
    moreover have "distinct (map (\<lambda>c. toLowerCase (hex c)) (n1 @ n2))"
      using d1 n2(2,3) unfolding n1(1) by auto
    moreover have "set (map (\<lambda>c. toLowerCase (hex c)) (n1 @ n2))
        \<inter> set (map (\<lambda>c. toLowerCase (hex c)) cols) = {}"
      using n1(3) n2(3) unfolding n1(1) by auto
    ultimately show ?thesis by blast
  qed
qed

text \<open>
  C4 as stated fails: the hex pattern pass makes one signal per match without looking at
  the signals it has made, so a code written twice gives two signals with the same hex value.
\<close>

theorem c4_duplicate_hex_counterexample:
  "extractColors ''#111111 #111111'' =
     [\<lparr>name = ''Color 1'', hex = ''#111111'', rgb = None, category = Some Primary\<rparr>,
      \<lparr>name = ''Color 2'', hex = ''#111111'', rgb = None, category = Some Secondary\<rparr>]
   \<and> \<not> distinct (map (\<lambda>c. toLowerCase (hex c)) (extractColors ''#111111 #111111''))"
  by code_simp

text \<open>
  C4 (amended): the signals that follow the hex-pattern signals, the ones made from RGB
  matches, have pairwise different hex values, compared in lower case, and none of them has
  the hex value of a hex-pattern signal.
\<close>

theorem c4_rgb_deduplicated:
  "\<exists>rest. extractColors text = hexSignals text @ rest
     \<and> distinct (map (\<lambda>c. toLowerCase (hex c)) rest)
     \<and> set (map (\<lambda>c. toLowerCase (hex c)) rest)
           \<inter> set (map (\<lambda>c. toLowerCase (hex c)) (hexSignals text)) = {}"
  unfolding extractColors_hex_pass by (rule rgbLoop_dedup)

section \<open>Typography, logo and brand name detection\<close>

text \<open>
  The remaining patterns are put together from the elements of a backtracking matcher. A
  position is the code unit before it, if any, and the input from it on. An element maps a
  position to the positions where it can end, in the order in which the engine tries them, so
  that the first position of the whole list is the one a match takes; the sequence of two
  elements is the bind of the list monad.
\<close>

type_synonym pos = "char option \<times> string"

definition peek :: "string \<Rightarrow> char option" where
  "peek s = (case s of [] \<Rightarrow> None | c # _ \<Rightarrow> Some c)"

definition isWordOpt :: "char option \<Rightarrow> bool" where
  "isWordOpt c = (case c of None \<Rightarrow> False | Some x \<Rightarrow> isWordChar x)"

text \<open>\<open>\b\<close>: exactly one of the two neighbours is a word character.\<close>

definition wordB :: "pos \<Rightarrow> pos list" where
  "wordB p = (case p of (prev, s) \<Rightarrow> if isWordOpt prev \<noteq> isWordOpt (peek s) then [p] else [])"

text \<open>One code unit of a class.\<close>

definition one :: "(char \<Rightarrow> bool) \<Rightarrow> pos \<Rightarrow> pos list" where
  "one P p = (case p of (prev, s) \<Rightarrow>
      (case s of [] \<Rightarrow> [] | c # cs \<Rightarrow> if P c then [(Some c, cs)] else []))"

text \<open>A literal text, compared by canonical form under the flag \<open>i\<close>.\<close>

fun literal :: "bool \<Rightarrow> string \<Rightarrow> pos \<Rightarrow> pos list" where
  "literal ci [] p = [p]"
| "literal ci (x # xs) p =
     List.bind (one (\<lambda>c. if ci then canonicalize c = canonicalize x else c = x) p) (literal ci xs)"

text \<open>
  A greedy quantifier on a class, \<open>{lo,hi}\<close> (no upper bound for \<open>None\<close>): the longest run
  first, then the shorter ones down to \<open>lo\<close> code units.
\<close>

definition greedy :: "(char \<Rightarrow> bool) \<Rightarrow> nat \<Rightarrow> nat option \<Rightarrow> pos \<Rightarrow> pos list" where
  "greedy P lo hi p = (case p of (prev, s) \<Rightarrow>
      (let run = takeWhile P (case hi of None \<Rightarrow> s | Some h \<Rightarrow> take h s)
       in map (\<lambda>k. (if k = 0 then prev else Some (s ! (k - 1)), drop k s))
              (rev [lo ..< Suc (length run)])))"

text \<open>A greedy optional element: with it first, then without.\<close>

definition optional :: "(pos \<Rightarrow> pos list) \<Rightarrow> pos \<Rightarrow> pos list" where
  "optional m p = m p @ [p]"

text \<open>
  The search of \<open>test\<close> and of \<open>match\<close> without the flag \<open>g\<close>: the leftmost position where the
  pattern matches, and there the first result.
\<close>

fun search :: "(pos \<Rightarrow> 'a list) \<Rightarrow> char option \<Rightarrow> string \<Rightarrow> 'a option" where
  "search m prev [] = (case m (prev, []) of [] \<Rightarrow> None | r # _ \<Rightarrow> Some r)"
| "search m prev (c # cs) =
     (case m (prev, c # cs) of [] \<Rightarrow> search m (Some c) cs | r # _ \<Rightarrow> Some r)"

text \<open>\<open>\bword\b\<close> under the flag \<open>i\<close>.\<close>

definition wordCI :: "string \<Rightarrow> pos \<Rightarrow> pos list" where
  "wordCI w p = do { p \<leftarrow> wordB p; p \<leftarrow> literal True w p; wordB p }"

definition commonFonts :: "string list" where
  "commonFonts =
    [''Arial'', ''Helvetica'', ''Times'', ''Times New Roman'', ''Courier'', ''Verdana'',
     ''Georgia'', ''Palatino'', ''Garamond'', ''Bookman'', ''Tahoma'', ''Trebuchet MS'',
     ''Impact'', ''Comic Sans MS'', ''Webdings'', ''Symbol'', ''Montserrat'', ''Roboto'',
     ''Open Sans'', ''Lato'', ''Oswald'', ''Raleway'', ''PT Sans'', ''Merriweather'',
     ''Ubuntu'', ''Noto'', ''Playfair Display'', ''Poppins'', ''Nunito'', ''Work Sans'']"

text \<open>
  A font name has no character that is special in a pattern, so \<open>new RegExp(`\\b${font}\\b`, 'gi')\<close>
  is the word pattern of the name; the object is new for each font, and \<open>test\<close> searches from
  the start of the text.
\<close>

definition fontTest :: "string \<Rightarrow> string \<Rightarrow> bool" where
  "fontTest font text = (search (wordCI font) None text \<noteq> None)"

definition extractTypography :: "string \<Rightarrow> TypographyInfo list" where
  "extractTypography text =
     (let typo = foldl (\<lambda>typo font.
                    if fontTest font text
                    then typo @ [\<lparr>family = font,
                                   fontCategory = Some (if length typo = 0 then Heading else Body)\<rparr>]
                    else typo) [] commonFonts
      in if length typo = 0
         then [\<lparr>family = ''Arial'', fontCategory = Some Heading\<rparr>,
               \<lparr>family = ''Helvetica'', fontCategory = Some Body\<rparr>]
         else typo)"


text \<open>
  The three presence tests of \<open>extractLogos\<close>; an alternation tries its branches in order.
\<close>

definition extractLogos :: "string \<Rightarrow> LogoInfo list" where
  "extractLogos text =
     (let logos = [];
          logos = (if search (wordCI ''logo'') None text \<noteq> None
                   then logos @ [\<lparr>logoName = ''Logo Principal'', logoType = PrimaryLogo,
                                   description = Some (''Logotipo principal extra'' @ [CHR 0xED] @ ''do del PDF'')\<rparr>]
                   else logos);
          logos = (if search (\<lambda>p. wordCI ''icon'' p @ wordCI ''isotipo'' p
                                   @ wordCI (''s'' @ [CHR 0xED] @ ''mbolo'') p) None text \<noteq> None
                   then logos @ [\<lparr>logoName = ''Isotipo'', logoType = IconLogo,
                                   description = Some (''Versi'' @ [CHR 0xF3] @ ''n de icono del logotipo'')\<rparr>]
                   else logos);
          logos = (if search (\<lambda>p. wordCI ''alternativo'' p @ wordCI ''secundario'' p
                                   @ wordCI (''monocrom'' @ [CHR 0xE1] @ ''tico'') p) None text \<noteq> None
                   then logos @ [\<lparr>logoName = ''Logo Alternativo'', logoType = AlternativeLogo,
                                   description = Some (''Versi'' @ [CHR 0xF3] @ ''n alternativa del logotipo'')\<rparr>]
                   else logos)
      in logos)"

text \<open>
  Character classes: a code unit belongs to a class under the flag \<open>i\<close> when its canonical
  form is the canonical form of a member.
\<close>

definition inClass :: "bool \<Rightarrow> string \<Rightarrow> char \<Rightarrow> bool" where
  "inClass ci members c =
     (if ci then canonicalize c \<in> set (map canonicalize members) else c \<in> set members)"

definition upperChars :: string where
  "upperChars = ''ABCDEFGHIJKLMNOPQRSTUVWXYZ''"

definition alnumSpaceChars :: string where
  "alnumSpaceChars =
     ''ABCDEFGHIJKLMNOPQRSTUVWXYZabcdefghijklmnopqrstuvwxyz0123456789''
     @ [CHR 0x09, CHR 0x0A, CHR 0x0B, CHR 0x0C, CHR 0x0D, CHR 0x20, CHR 0xA0]"

definition quoteChars :: string where
  "quoteChars = [CHR '':'', CHR 0x22, CHR 0x27]"

text \<open>
  The capturing group \<open>([A-Z][A-Za-z0-9\s]{0,20})\<close>, the last element of each brand pattern:
  its result is the captured text.
\<close>

definition nameGroup :: "bool \<Rightarrow> pos \<Rightarrow> string list" where
  "nameGroup ci p =
     do {
       q \<leftarrow> one (inClass ci upperChars) p;
       r \<leftarrow> greedy (inClass ci alnumSpaceChars) 0 (Some 20) q;
       [take (length (snd p) - length (snd r)) (snd p)]
     }"

definition brandPatterns :: "(pos \<Rightarrow> string list) list" where
  "brandPatterns =
    [\<lambda>p. do {
        p \<leftarrow> literal True ''marca'' p;
        p \<leftarrow> greedy isSpace 1 None p;
        p \<leftarrow> optional (literal True ''registrada'') p;
        p \<leftarrow> greedy isSpace 0 None p;
        p \<leftarrow> optional (one (inClass True quoteChars)) p;
        p \<leftarrow> greedy isSpace 0 None p;
        nameGroup True p
      },
     \<lambda>p. do {
        p \<leftarrow> one (inClass False ''Bb'') p;
        p \<leftarrow> literal False ''rand'' p;
        p \<leftarrow> greedy isSpace 1 None p;
        p \<leftarrow> one (inClass False ''Nn'') p;
        p \<leftarrow> literal False ''ame'' p;
        p \<leftarrow> greedy isSpace 0 None p;
        p \<leftarrow> optional (one (inClass False quoteChars)) p;
        p \<leftarrow> greedy isSpace 0 None p;
        nameGroup False p
      },
     \<lambda>p. do {
        p \<leftarrow> one (inClass True ''Ll'') p;
        p \<leftarrow> literal True ''ogotipo'' p;
        p \<leftarrow> greedy isSpace 1 None p;
        p \<leftarrow> optional (literal True ''de'') p;
        p \<leftarrow> greedy isSpace 0 None p;
        p \<leftarrow> optional (one (inClass True quoteChars)) p;
        p \<leftarrow> greedy isSpace 0 None p;
        nameGroup True p
      }]"

definition trim :: "string \<Rightarrow> string" where
  "trim s = rev (dropWhile isSpace (rev (dropWhile isSpace s)))"

fun firstBrandName :: "(pos \<Rightarrow> string list) list \<Rightarrow> string \<Rightarrow> string option" where
  "firstBrandName [] text = None"
| "firstBrandName (pattern # patterns) text =
     (case search pattern None text of
        None \<Rightarrow> firstBrandName patterns text
      | Some m \<Rightarrow> if m \<noteq> [] then Some (trim m) else firstBrandName patterns text)"

definition extractBrandName :: "string \<Rightarrow> string option" where
  "extractBrandName text = firstBrandName brandPatterns text"


section \<open>JSON text\<close>

text \<open>
  \<open>JSON.stringify(value, null, 2)\<close> on the values the code passes to it: objects, arrays,
  strings and numbers. A string is quoted with the escapes of the standard: the two-character
  escapes for backspace, tab, line feed, form feed, carriage return, the quotation mark and
  the backslash, and \<open>\u00XX\<close> for the other code units below \<open>0x20\<close>.
\<close>

datatype json =
    JNull
  | JBool bool
  | JNumber number
  | JString string
  | JArray "json list"
  | JObject "(string \<times> json) list"

definition quoteChar :: "char \<Rightarrow> string" where
  "quoteChar c =
     (if c = CHR 0x08 then [CHR 0x5C, CHR ''b'']
      else if c = CHR 0x09 then [CHR 0x5C, CHR ''t'']
      else if c = CHR 0x0A then [CHR 0x5C, CHR ''n'']
      else if c = CHR 0x0C then [CHR 0x5C, CHR ''f'']
      else if c = CHR 0x0D then [CHR 0x5C, CHR ''r'']
      else if c = CHR 0x22 then [CHR 0x5C, CHR 0x22]
      else if c = CHR 0x5C then [CHR 0x5C, CHR 0x5C]
      else if (of_char c :: nat) < 0x20
        then [CHR 0x5C, CHR ''u'', CHR ''0'', CHR ''0'',
              digitChar (of_char c div 16), digitChar (of_char c mod 16)]
      else [c])"

definition quote :: "string \<Rightarrow> string" where
  "quote s = [CHR 0x22] @ concat (map quoteChar s) @ [CHR 0x22]"

definition indentation :: "nat \<Rightarrow> string" where
  "indentation n = replicate n (CHR '' '')"

fun stringify :: "nat \<Rightarrow> json \<Rightarrow> string"
  and stringifyItems :: "nat \<Rightarrow> json list \<Rightarrow> string"
  and stringifyMembers :: "nat \<Rightarrow> (string \<times> json) list \<Rightarrow> string" where
  "stringify ind JNull = ''null''"
| "stringify ind (JBool b) = (if b then ''true'' else ''false'')"
| "stringify ind (JNumber n) = numberToString n"
| "stringify ind (JString s) = quote s"
| "stringify ind (JArray []) = ''[]''"
| "stringify ind (JArray (x # xs)) =
     ''[\<newline>'' @ stringifyItems (ind + 2) (x # xs) @ ''\<newline>'' @ indentation ind @ '']''"
| "stringify ind (JObject []) = ''{}''"
| "stringify ind (JObject (m # ms)) =
     ''{\<newline>'' @ stringifyMembers (ind + 2) (m # ms) @ ''\<newline>'' @ indentation ind @ ''}''"
| "stringifyItems ind [] = []"
| "stringifyItems ind [x] = indentation ind @ stringify ind x"
| "stringifyItems ind (x # y # ys) =
     indentation ind @ stringify ind x @ '',\<newline>'' @ stringifyItems ind (y # ys)"
| "stringifyMembers ind [] = []"
| "stringifyMembers ind [(k, v)] = indentation ind @ quote k @ '': '' @ stringify ind v"
| "stringifyMembers ind ((k, v) # m # ms) =
     indentation ind @ quote k @ '': '' @ stringify ind v @ '',\<newline>''
       @ stringifyMembers ind (m # ms)"


text \<open>The objects handed to \<open>JSON.stringify\<close>, keys in the order of their creation; an undefined member is left out.\<close>

definition stringObject :: "string obj \<Rightarrow> json" where
  "stringObject kvs = JObject (map (\<lambda>(k, v). (k, JString v)) kvs)"

definition numberObject :: "number obj \<Rightarrow> json" where
  "numberObject kvs = JObject (map (\<lambda>(k, v). (k, JNumber v)) kvs)"

definition tokensToJson :: "DesignTokens \<Rightarrow> json" where
  "tokensToJson t =
     JObject (
       [(''colors'', JObject [(''primary'', stringObject (primary (colors' t))),
                              (''secondary'', stringObject (secondary (colors' t))),
                              (''accent'', stringObject (accent (colors' t))),
                              (''neutral'', stringObject (neutral (colors' t))),
                              (''feedback'', stringObject (feedback (colors' t)))]),
        (''typography'', JObject [(''families'', stringObject (families (typography' t))),
                                  (''weights'', numberObject (weights (typography' t))),
                                  (''sizes'', stringObject (sizes (typography' t))),
                                  (''lineHeights'', numberObject (lineHeights (typography' t)))])]
       @ (case spacing t of None \<Rightarrow> [] | Some sp \<Rightarrow> [(''spacing'', stringObject sp)])
       @ [(''metadata'', stringObject (metadata t))])"

definition categoryName :: "ColorCategory \<Rightarrow> string" where
  "categoryName c = (case c of Primary \<Rightarrow> ''primary'' | Secondary \<Rightarrow> ''secondary''
                     | Accent \<Rightarrow> ''accent'' | Neutral \<Rightarrow> ''neutral'')"

definition fontCategoryName :: "FontCategory \<Rightarrow> string" where
  "fontCategoryName c = (case c of Heading \<Rightarrow> ''heading'' | Body \<Rightarrow> ''body'' | AccentFont \<Rightarrow> ''accent'')"

definition logoTypeName :: "LogoType \<Rightarrow> string" where
  "logoTypeName c = (case c of PrimaryLogo \<Rightarrow> ''primary'' | SecondaryLogo \<Rightarrow> ''secondary''
                     | AlternativeLogo \<Rightarrow> ''alternative'' | IconLogo \<Rightarrow> ''icon'')"

definition colorToJson :: "ColorInfo \<Rightarrow> json" where
  "colorToJson c =
     JObject ([(''name'', JString (name c)), (''hex'', JString (hex c))]
       @ (case rgb c of None \<Rightarrow> [] | Some r \<Rightarrow> [(''rgb'', JString r)])
       @ (case category c of None \<Rightarrow> [] | Some k \<Rightarrow> [(''category'', JString (categoryName k))]))"

definition typographyToJson :: "TypographyInfo \<Rightarrow> json" where
  "typographyToJson t =
     JObject ([(''family'', JString (family t))]
       @ (case fontCategory t of None \<Rightarrow> [] | Some k \<Rightarrow> [(''category'', JString (fontCategoryName k))]))"

definition logoToJson :: "LogoInfo \<Rightarrow> json" where
  "logoToJson l =
     JObject ([(''name'', JString (logoName l)), (''type'', JString (logoTypeName (logoType l)))]
       @ (case description l of None \<Rightarrow> [] | Some d \<Rightarrow> [(''description'', JString d)]))"

definition brandingToJson :: "BrandingData \<Rightarrow> json" where
  "brandingToJson d =
     JObject ([(''colors'', JArray (map colorToJson (colors d))),
               (''typography'', JArray (map typographyToJson (typography d))),
               (''logos'', JArray (map logoToJson (logos d)))]
       @ (case brandName d of None \<Rightarrow> [] | Some n \<Rightarrow> [(''brandName'', JString n)]))"

definition convertTokensToFormat :: "DesignTokens \<Rightarrow> string \<Rightarrow> string" where
  "convertTokensToFormat tokens format =
     (if format = ''json'' then stringify 0 (tokensToJson tokens)
      else if format = ''css'' then generateCSSVariables tokens
      else if format = ''scss'' then generateSCSSVariables tokens
      else stringify 0 (tokensToJson tokens))"

section \<open>The two operations\<close>

text \<open>
  What the code takes from outside: the file system and the PDF decoder, each call of which
  returns or throws, and two texts fixed by the runtime and the protocol library, the message
  of the error thrown when the arguments of a request are missing and the message the
  library gives an \<open>McpError\<close>. The calls made and the lines logged are recorded as events.
\<close>

datatype ErrorCode = InvalidParams | NotFound

datatype JsError = McpError ErrorCode string | Error string | TypeError string

datatype Event =
    ExistsSync string
  | ReadFileSync string
  | PdfParse
  | LoggerInfo string
  | LoggerError string JsError

record Runtime =
  existsSync :: "string \<Rightarrow> bool"
  readFileSync :: "string \<Rightarrow> JsError + string"
  pdfParse :: "string \<Rightarrow> JsError + string"
  mcpErrorMessage :: "ErrorCode \<Rightarrow> string \<Rightarrow> string"
  destructureMessage :: string

record ExtractOptions =
  extractColors' :: "bool option"
  extractTypography' :: "bool option"
  extractLogos' :: "bool option"

definition extractBrandingFromPDF ::
    "Runtime \<Rightarrow> string \<Rightarrow> ExtractOptions \<Rightarrow> Event list \<times> (JsError + BrandingData)" where
  "extractBrandingFromPDF rt pdfPath options =
     (if \<not> existsSync rt pdfPath
      then (let e = Error (''El archivo PDF no existe: '' @ pdfPath)
            in ([ExistsSync pdfPath, LoggerError ''Error extracting branding from PDF:'' e], Inl e))
      else (case readFileSync rt pdfPath of
          Inl e \<Rightarrow> ([ExistsSync pdfPath, ReadFileSync pdfPath,
                     LoggerError ''Error extracting branding from PDF:'' e], Inl e)
        | Inr dataBuffer \<Rightarrow>
           (case pdfParse rt dataBuffer of
              Inl e \<Rightarrow> ([ExistsSync pdfPath, ReadFileSync pdfPath, PdfParse,
                         LoggerError ''Error extracting branding from PDF:'' e], Inl e)
            | Inr text \<Rightarrow>
                ([ExistsSync pdfPath, ReadFileSync pdfPath, PdfParse],
                 Inr \<lparr> colors = (if extractColors' options \<noteq> Some False then extractColors text else []),
                        typography = (if extractTypography' options \<noteq> Some False
                                      then extractTypography text else []),
                        logos = (if extractLogos' options \<noteq> Some False then extractLogos text else []),
                        brandName = extractBrandName text \<rparr>))))"

record 'a Request =
  toolName :: string
  arguments :: "'a option"

record Response =
  responseText :: string
  isError :: bool

record PdfArguments =
  pdfPath :: "string option"
  extractOptions :: "ExtractOptions option"

definition errorText :: "Runtime \<Rightarrow> JsError \<Rightarrow> string" where
  "errorText rt e =
     (case e of McpError code msg \<Rightarrow> mcpErrorMessage rt code msg | Error msg \<Rightarrow> msg
      | TypeError msg \<Rightarrow> msg)"

text \<open>
  The request handler that \<open>registerPdfExtractorTool\<close> installs. \<open>None\<close> is the \<open>return;\<close> for
  another tool. The body of the \<open>try\<close> either returns a response or throws; the \<open>catch\<close> logs
  the error and returns the response flagged as an error. \<open>!pdfPath\<close> holds for a missing and
  for an empty path; missing options are the empty object of the default parameter.
\<close>

definition pdfExtractorTry ::
    "Runtime \<Rightarrow> PdfArguments Request \<Rightarrow> Event list \<times> (JsError + Response)" where
  "pdfExtractorTry rt request =
     (case arguments request of
        None \<Rightarrow> ([], Inl (TypeError (destructureMessage rt)))
      | Some args \<Rightarrow>
         (case pdfPath args of
            None \<Rightarrow> ([], Inl (McpError InvalidParams ''Se requiere la ruta al archivo PDF (pdfPath)''))
          | Some path \<Rightarrow>
              if path = []
              then ([], Inl (McpError InvalidParams ''Se requiere la ruta al archivo PDF (pdfPath)''))
              else (case extractBrandingFromPDF rt path
                           (case extractOptions args of
                              None \<Rightarrow> \<lparr>extractColors' = None, extractTypography' = None,
                                        extractLogos' = None\<rparr>
                            | Some opts \<Rightarrow> opts) of
                      (events, result) \<Rightarrow>
                        (LoggerInfo (''Extrayendo informaci'' @ [CHR 0xF3] @ ''n de branding del PDF: '' @ path)
                           # events,
                         (case result of
                            Inl e \<Rightarrow> Inl e
                          | Inr brandingData \<Rightarrow>
                              Inr \<lparr>responseText = stringify 0 (brandingToJson brandingData),
                                   isError = False\<rparr>)))))"

definition registerPdfExtractorTool ::
    "Runtime \<Rightarrow> PdfArguments Request \<Rightarrow> Event list \<times> Response option" where
  "registerPdfExtractorTool rt request =
     (if toolName request \<noteq> ''extract_pdf_branding'' then ([], None)
      else (case pdfExtractorTry rt request of
              (events, Inr response) \<Rightarrow> (events, Some response)
            | (events, Inl e) \<Rightarrow>
                (events @ [LoggerError ''Error en la herramienta extract_pdf_branding:'' e],
                 Some \<lparr>responseText = ''Error: '' @ errorText rt e, isError = True\<rparr>)))"

text \<open>
  The handler of \<open>generate_design_tokens\<close>. The Figma data, when given, is spread over the
  branding data: each of its members replaces the member of the same name. Only the members
  that \<open>generateDesignTokens\<close> reads are modelled.
\<close>

record FigmaData =
  figmaColors :: "ColorInfo list option"
  figmaTypography :: "TypographyInfo list option"
  figmaLogos :: "LogoInfo list option"
  figmaBrandName :: "string option"

record TokenArguments =
  brandingData :: "BrandingData option"
  figmaData :: "FigmaData option"
  format :: "string option"

definition spread :: "BrandingData \<Rightarrow> FigmaData \<Rightarrow> BrandingData" where
  "spread b f =
     \<lparr> colors = (case figmaColors f of None \<Rightarrow> colors b | Some c \<Rightarrow> c),
       typography = (case figmaTypography f of None \<Rightarrow> typography b | Some t \<Rightarrow> t),
       logos = (case figmaLogos f of None \<Rightarrow> logos b | Some l \<Rightarrow> l),
       brandName = (case figmaBrandName f of None \<Rightarrow> brandName b | Some n \<Rightarrow> Some n) \<rparr>"

definition designTokenTry ::
    "Runtime \<Rightarrow> string \<Rightarrow> TokenArguments Request \<Rightarrow> Event list \<times> (JsError + Response)" where
  "designTokenTry rt now request =
     (case arguments request of
        None \<Rightarrow> ([], Inl (TypeError (destructureMessage rt)))
      | Some args \<Rightarrow>
         (case brandingData args of
            None \<Rightarrow> ([], Inl (McpError InvalidParams ''Se requieren los datos de branding (brandingData)''))
          | Some branding \<Rightarrow>
              (let combinedData = (case figmaData args of None \<Rightarrow> branding
                                   | Some figma \<Rightarrow> spread branding figma);
                   designTokens = generateDesignTokens now combinedData;
                   result = convertTokensToFormat designTokens
                              (case format args of None \<Rightarrow> ''json'' | Some f \<Rightarrow> f)
               in ([LoggerInfo (''Generando tokens de dise'' @ [CHR 0xF1]
                                 @ ''o a partir de datos de branding'')],
                   Inr \<lparr>responseText = result, isError = False\<rparr>))))"

definition registerDesignTokenTool ::
    "Runtime \<Rightarrow> string \<Rightarrow> TokenArguments Request \<Rightarrow> Event list \<times> Response option" where
  "registerDesignTokenTool rt now request =
     (if toolName request \<noteq> ''generate_design_tokens'' then ([], None)
      else (case designTokenTry rt now request of
              (events, Inr response) \<Rightarrow> (events, Some response)
            | (events, Inl e) \<Rightarrow>
                (events @ [LoggerError ''Error en la herramienta generate_design_tokens:'' e],
                 Some \<lparr>responseText = ''Error: '' @ errorText rt e, isError = True\<rparr>)))"

section \<open>Properties of the typography extraction and of the two operations\<close>

lemma typography_fold:
  "foldl (\<lambda>typo font.
            if P font
            then typo @ [\<lparr>family = font,
                           fontCategory = Some (if length typo = 0 then Heading else Body)\<rparr>]
            else typo) acc fonts
   = acc @ (case filter P fonts of
              [] \<Rightarrow> []
            | f # fs \<Rightarrow> \<lparr>family = f, fontCategory = Some (if acc = [] then Heading else Body)\<rparr>
                        # map (\<lambda>g. \<lparr>family = g, fontCategory = Some Body\<rparr>) fs)"
proof (induction fonts arbitrary: acc)
  case Nil
  then show ?case by simp
next
  case (Cons a fonts)
  show ?case
  proof (cases "P a")
    case True
    then show ?thesis
      by (simp add: Cons.IH split: list.splits)
  next
    case False
    then show ?thesis by (simp add: Cons.IH)
  qed
qed

lemma extractTypography_closed_form:
  "extractTypography text =
     (case filter (\<lambda>font. fontTest font text) commonFonts of
        [] \<Rightarrow> [\<lparr>family = ''Arial'', fontCategory = Some Heading\<rparr>,
               \<lparr>family = ''Helvetica'', fontCategory = Some Body\<rparr>]
      | f # fs \<Rightarrow> \<lparr>family = f, fontCategory = Some Heading\<rparr>
                  # map (\<lambda>g. \<lparr>family = g, fontCategory = Some Body\<rparr>) fs)"
  by (simp add: extractTypography_def Let_def typography_fold split: list.splits)

lemma extractTypography_nonempty: "extractTypography text \<noteq> []"
  unfolding extractTypography_closed_form by (simp split: list.splits)

definition lastOpt :: "char option \<Rightarrow> string \<Rightarrow> char option" where
  "lastOpt prev s = (if s = [] then prev else Some (last s))"

lemma one_result:
  "one P (prev, s) = (case s of [] \<Rightarrow> [] | c # cs \<Rightarrow> if P c then [(Some c, cs)] else [])"
  by (simp add: one_def)

lemma literal_result:
  "literal True w (prev, s) =
     (if length w \<le> length s \<and> map canonicalize (take (length w) s) = map canonicalize w
      then [(lastOpt prev (take (length w) s), drop (length w) s)] else [])"
proof (induction w arbitrary: prev s)
  case Nil
  then show ?case by (simp add: lastOpt_def)
next
  case (Cons x xs)
  show ?case
  proof (cases s)
    case Nil
    then show ?thesis by (simp add: one_result)
  next
    case (Cons c cs)
    show ?thesis
    proof (cases "canonicalize c = canonicalize x")
      case True
      then show ?thesis
        using Cons Cons.IH [of "Some c" cs]
        by (auto simp: one_result lastOpt_def)
    next
      case False
      then show ?thesis using Cons by (simp add: one_result)
    qed
  qed
qed

lemma search_exists:
  "search m prev s \<noteq> None \<longleftrightarrow> (\<exists>a b. s = a @ b \<and> m (lastOpt prev a, b) \<noteq> [])"
proof (induction s arbitrary: prev)
  case Nil
  then show ?case by (auto simp: lastOpt_def split: list.splits)
next
  case (Cons c cs)
  show ?case
  proof (cases "m (prev, c # cs)")
    case (Cons r rs)
    then have "m (lastOpt prev [], c # cs) \<noteq> []" by (simp add: lastOpt_def)
    then have "\<exists>a b. c # cs = a @ b \<and> m (lastOpt prev a, b) \<noteq> []"
      by (intro exI [of _ "[]"] exI [of _ "c # cs"]) simp
    then show ?thesis using Cons by simp
  next
    case Nil
    have "(\<exists>a b. c # cs = a @ b \<and> m (lastOpt prev a, b) \<noteq> [])
        \<longleftrightarrow> (\<exists>a b. cs = a @ b \<and> m (lastOpt (Some c) a, b) \<noteq> [])"
    proof
      assume "\<exists>a b. c # cs = a @ b \<and> m (lastOpt prev a, b) \<noteq> []"
      then obtain a b where ab: "c # cs = a @ b" "m (lastOpt prev a, b) \<noteq> []" by blast
      from ab Nil have "a \<noteq> []" by (auto simp: lastOpt_def)
      then obtain a' where a': "a = c # a'" using ab(1) by (cases a) auto
      then have "cs = a' @ b" using ab(1) by simp
      moreover have "lastOpt prev a = lastOpt (Some c) a'"
        using a' by (simp add: lastOpt_def)
      ultimately show "\<exists>a b. cs = a @ b \<and> m (lastOpt (Some c) a, b) \<noteq> []"
        using ab(2) by auto
    next
      assume "\<exists>a b. cs = a @ b \<and> m (lastOpt (Some c) a, b) \<noteq> []"
      then obtain a b where ab: "cs = a @ b" "m (lastOpt (Some c) a, b) \<noteq> []" by blast
      have "lastOpt prev (c # a) = lastOpt (Some c) a" by (simp add: lastOpt_def)
      with ab show "\<exists>a b. c # cs = a @ b \<and> m (lastOpt prev a, b) \<noteq> []"
        by (intro exI [of _ "c # a"] exI [of _ b]) simp
    qed
    then show ?thesis using Nil Cons.IH [of "Some c"] by simp
  qed
qed

lemma wordCI_nonempty:
  "wordCI w (prev, b) \<noteq> [] \<longleftrightarrow>
     isWordOpt prev \<noteq> isWordOpt (peek b)
     \<and> length w \<le> length b \<and> map canonicalize (take (length w) b) = map canonicalize w
     \<and> isWordOpt (lastOpt prev (take (length w) b)) \<noteq> isWordOpt (peek (drop (length w) b))"
  by (auto simp: wordCI_def wordB_def literal_result)

lemma fontTest_occurs:
  "fontTest w text \<longleftrightarrow>
     (\<exists>pre mid post. text = pre @ mid @ post
        \<and> map canonicalize mid = map canonicalize w
        \<and> isWordOpt (lastOpt None pre) \<noteq> isWordOpt (peek (mid @ post))
        \<and> isWordOpt (lastOpt None (pre @ mid)) \<noteq> isWordOpt (peek post))"
  (is "?L \<longleftrightarrow> ?R")
proof
  assume ?L
  then obtain a b where ab: "text = a @ b" "wordCI w (lastOpt None a, b) \<noteq> []"
    unfolding fontTest_def search_exists by blast
  from ab(2) have w: "isWordOpt (lastOpt None a) \<noteq> isWordOpt (peek b)"
    "length w \<le> length b" "map canonicalize (take (length w) b) = map canonicalize w"
    "isWordOpt (lastOpt (lastOpt None a) (take (length w) b)) \<noteq> isWordOpt (peek (drop (length w) b))"
    unfolding wordCI_nonempty by blast+
  have l: "lastOpt (lastOpt None a) (take (length w) b) = lastOpt None (a @ take (length w) b)"
    by (simp add: lastOpt_def)
  show ?R
    using ab(1) w l
    by (intro exI [of _ a] exI [of _ "take (length w) b"] exI [of _ "drop (length w) b"]) simp
next
  assume ?R
  then obtain pre mid post where r: "text = pre @ mid @ post"
    "map canonicalize mid = map canonicalize w"
    "isWordOpt (lastOpt None pre) \<noteq> isWordOpt (peek (mid @ post))"
    "isWordOpt (lastOpt None (pre @ mid)) \<noteq> isWordOpt (peek post)"
    by blast
  from r(2) have len: "length mid = length w" by (metis length_map)
  have l: "lastOpt (lastOpt None pre) mid = lastOpt None (pre @ mid)"
    by (simp add: lastOpt_def)
  have "wordCI w (lastOpt None pre, mid @ post) \<noteq> []"
    unfolding wordCI_nonempty using r len l by simp
  then show ?L
    unfolding fontTest_def search_exists using r(1) by blast
qed

text \<open>
  C5: the result of \<open>extractTypography\<close> is determined by the fonts of the fixed list that the
  text passes the test for, taken in the order of the list: none gives the two defaults, Arial
  as heading and Helvetica as body; otherwise the first of them is the heading and each later
  one a body signal, one signal per font. A font passes the test exactly when the text has an
  occurrence of it, equal up to case, with a word boundary before and after it.
\<close>

theorem c5_typography:
  "extractTypography text =
     (case filter (\<lambda>font. fontTest font text) commonFonts of
        [] \<Rightarrow> [\<lparr>family = ''Arial'', fontCategory = Some Heading\<rparr>,
               \<lparr>family = ''Helvetica'', fontCategory = Some Body\<rparr>]
      | f # fs \<Rightarrow> \<lparr>family = f, fontCategory = Some Heading\<rparr>
                  # map (\<lambda>g. \<lparr>family = g, fontCategory = Some Body\<rparr>) fs)
   \<and> (\<forall>font. fontTest font text \<longleftrightarrow>
        (\<exists>pre mid post. text = pre @ mid @ post
           \<and> map canonicalize mid = map canonicalize font
           \<and> isWordOpt (lastOpt None pre) \<noteq> isWordOpt (peek (mid @ post))
           \<and> isWordOpt (lastOpt None (pre @ mid)) \<noteq> isWordOpt (peek post)))"
  using extractTypography_closed_form [of "text"] fontTest_occurs [of _ "text"] by blast

definition suppressAll :: ExtractOptions where
  "suppressAll = \<lparr>extractColors' = Some False, extractTypography' = Some False,
                   extractLogos' = Some False\<rparr>"

definition noOptions :: ExtractOptions where
  "noOptions = \<lparr>extractColors' = None, extractTypography' = None, extractLogos' = None\<rparr>"

definition sampleRuntime :: Runtime where
  "sampleRuntime = \<lparr> existsSync = (\<lambda>p. p = ''manual.pdf''),
                      readFileSync = (\<lambda>p. Inr ''%PDF-1.4''),
                      pdfParse = (\<lambda>b. Inr ''Manual de identidad''),
                      mcpErrorMessage = (\<lambda>code msg. ''MCP error -32602: '' @ msg),
                      destructureMessage = ''Cannot destructure property of undefined'' \<rparr>"

text \<open>
  C10: when the file exists and is read and decoded to \<open>text\<close>, the branding data returned has
  an empty typography list if \<open>extractTypography\<close> is \<open>false\<close>, an empty colour list if
  \<open>extractColors\<close> is \<open>false\<close>, and an empty logo list if \<open>extractLogos\<close> is \<open>false\<close>. Without
  the suppression the typography list is that of the typography pass, which is never empty:
  the default pair exists only inside the pass that the flag suppresses.
\<close>

theorem c10_suppressed_categories:
  assumes "existsSync rt path"
    and "readFileSync rt path = Inr dataBuffer"
    and "pdfParse rt dataBuffer = Inr text"
  shows "\<exists>d. snd (extractBrandingFromPDF rt path options) = Inr d
           \<and> (extractTypography' options = Some False \<longrightarrow> typography d = [])
           \<and> (extractColors' options = Some False \<longrightarrow> colors d = [])
           \<and> (extractLogos' options = Some False \<longrightarrow> logos d = [])
           \<and> (extractTypography' options \<noteq> Some False \<longrightarrow>
                 typography d = extractTypography text \<and> typography d \<noteq> [])"
  using assms by (simp add: extractBrandingFromPDF_def extractTypography_nonempty)

theorem c10_suppressed_categories_witness:
  "existsSync sampleRuntime ''manual.pdf''
   \<and> readFileSync sampleRuntime ''manual.pdf'' = Inr ''%PDF-1.4''
   \<and> pdfParse sampleRuntime ''%PDF-1.4'' = Inr ''Manual de identidad''
   \<and> extractTypography' suppressAll = Some False
   \<and> extractColors' suppressAll = Some False
   \<and> extractLogos' suppressAll = Some False
   \<and> extractTypography' noOptions \<noteq> Some False
   \<and> (\<exists>d. snd (extractBrandingFromPDF sampleRuntime ''manual.pdf'' suppressAll) = Inr d
          \<and> typography d = [] \<and> colors d = [] \<and> logos d = [])
   \<and> (\<exists>d. snd (extractBrandingFromPDF sampleRuntime ''manual.pdf'' noOptions) = Inr d
          \<and> typography d = extractTypography ''Manual de identidad'' \<and> typography d \<noteq> [])"
proof -
  have e: "existsSync sampleRuntime ''manual.pdf''" by (simp add: sampleRuntime_def)
  have r: "readFileSync sampleRuntime ''manual.pdf'' = Inr ''%PDF-1.4''"
    by (simp add: sampleRuntime_def)
  have p: "pdfParse sampleRuntime ''%PDF-1.4'' = Inr ''Manual de identidad''"
    by (simp add: sampleRuntime_def)
  have s: "extractTypography' suppressAll = Some False" "extractColors' suppressAll = Some False"
    "extractLogos' suppressAll = Some False"
    by (simp_all add: suppressAll_def)
  have n: "extractTypography' noOptions \<noteq> Some False" by (simp add: noOptions_def)
  from c10_suppressed_categories [OF e r p, of suppressAll] s
  have 1: "\<exists>d. snd (extractBrandingFromPDF sampleRuntime ''manual.pdf'' suppressAll) = Inr d
          \<and> typography d = [] \<and> colors d = [] \<and> logos d = []"
    by blast
  from c10_suppressed_categories [OF e r p, of noOptions] n
  have 2: "\<exists>d. snd (extractBrandingFromPDF sampleRuntime ''manual.pdf'' noOptions) = Inr d
          \<and> typography d = extractTypography ''Manual de identidad'' \<and> typography d \<noteq> []"
    by blast
  show ?thesis
    by (intro conjI e r p s n 1 2)
qed

definition invalidPdfParams :: JsError where
  "invalidPdfParams = McpError InvalidParams ''Se requiere la ruta al archivo PDF (pdfPath)''"

definition invalidTokenParams :: JsError where
  "invalidTokenParams = McpError InvalidParams ''Se requieren los datos de branding (brandingData)''"

lemma pdf_missing_path:
  assumes "toolName request = ''extract_pdf_branding''"
    and "arguments request = Some args" and "pdfPath args = None"
  shows "registerPdfExtractorTool rt request =
           ([LoggerError ''Error en la herramienta extract_pdf_branding:'' invalidPdfParams],
            Some \<lparr>responseText = ''Error: '' @ mcpErrorMessage rt InvalidParams
                                   ''Se requiere la ruta al archivo PDF (pdfPath)'',
                  isError = True\<rparr>)"
  using assms
  by (simp add: registerPdfExtractorTool_def pdfExtractorTry_def invalidPdfParams_def errorText_def)

lemma token_missing_branding:
  assumes "toolName request = ''generate_design_tokens''"
    and "arguments request = Some args" and "brandingData args = None"
  shows "registerDesignTokenTool rt now request =
           ([LoggerError ''Error en la herramienta generate_design_tokens:'' invalidTokenParams],
            Some \<lparr>responseText = ''Error: '' @ mcpErrorMessage rt InvalidParams
                                   ''Se requieren los datos de branding (brandingData)'',
                  isError = True\<rparr>)"
  using assms
  by (simp add: registerDesignTokenTool_def designTokenTry_def invalidTokenParams_def errorText_def)

lemma pdfExtractorTry_success:
  "pdfExtractorTry rt request = (events, Inr response) \<Longrightarrow> \<not> isError response"
  by (auto simp: pdfExtractorTry_def split: option.splits if_splits prod.splits sum.splits)

lemma designTokenTry_success:
  "designTokenTry rt now request = (events, Inr response) \<Longrightarrow> \<not> isError response"
  by (auto simp: designTokenTry_def Let_def split: option.splits)

lemma pdf_never_throws:
  assumes "toolName request = ''extract_pdf_branding''"
  shows "\<exists>events response. registerPdfExtractorTool rt request = (events, Some response)
           \<and> isError response = isl (snd (pdfExtractorTry rt request))"
  using assms
  by (cases "pdfExtractorTry rt request")
     (auto simp: registerPdfExtractorTool_def split: sum.splits dest: pdfExtractorTry_success)

lemma token_never_throws:
  assumes "toolName request = ''generate_design_tokens''"
  shows "\<exists>events response. registerDesignTokenTool rt now request = (events, Some response)
           \<and> isError response = isl (snd (designTokenTry rt now request))"
  using assms
  by (cases "designTokenTry rt now request")
     (auto simp: registerDesignTokenTool_def split: sum.splits dest: designTokenTry_success)

definition pdfRequestWithoutPath :: "PdfArguments Request" where
  "pdfRequestWithoutPath =
     \<lparr>toolName = ''extract_pdf_branding'',
      arguments = Some \<lparr>pdfPath = None, extractOptions = None\<rparr>\<rparr>"

definition tokenRequestWithoutData :: "TokenArguments Request" where
  "tokenRequestWithoutData =
     \<lparr>toolName = ''generate_design_tokens'',
      arguments = Some \<lparr>brandingData = None, figmaData = None, format = Some ''css''\<rparr>\<rparr>"

definition pdfRequestWithoutArguments :: "PdfArguments Request" where
  "pdfRequestWithoutArguments = \<lparr>toolName = ''extract_pdf_branding'', arguments = None\<rparr>"

definition tokenRequestWithoutArguments :: "TokenArguments Request" where
  "tokenRequestWithoutArguments = \<lparr>toolName = ''generate_design_tokens'', arguments = None\<rparr>"

text \<open>
  C9 asks for the invalid-parameters error whenever the required parameter is absent. Each
  handler has the guard for it (\<open>if (!pdfPath)\<close>, \<open>if (!brandingData)\<close>), and a call whose
  arguments lack the parameter gets that error, with no call of the file system or of the
  decoder (\<open>pdf_missing_path\<close>, \<open>token_missing_branding\<close>); every call returns a response,
  flagged as an error exactly when the body of the \<open>try\<close> has thrown (\<open>pdf_never_throws\<close>,
  \<open>token_never_throws\<close>). But a call that has no arguments at all, which lacks the required
  parameter as well, does not reach the guard: the destructuring before it throws the
  \<open>TypeError\<close> of the runtime, and the response flagged as an error carries the message of
  that error and not the one of the invalid-parameters error. The theorem evaluates both
  handlers at such a call and, beside it, at the call with arguments that lack the parameter.
\<close>

theorem c9_absent_arguments:
  "registerPdfExtractorTool rt pdfRequestWithoutArguments =
     ([LoggerError ''Error en la herramienta extract_pdf_branding:''
         (TypeError (destructureMessage rt))],
      Some \<lparr>responseText = ''Error: '' @ destructureMessage rt, isError = True\<rparr>)
   \<and> registerDesignTokenTool rt now tokenRequestWithoutArguments =
     ([LoggerError ''Error en la herramienta generate_design_tokens:''
         (TypeError (destructureMessage rt))],
      Some \<lparr>responseText = ''Error: '' @ destructureMessage rt, isError = True\<rparr>)
   \<and> TypeError (destructureMessage rt) \<noteq> invalidPdfParams
   \<and> TypeError (destructureMessage rt) \<noteq> invalidTokenParams
   \<and> registerPdfExtractorTool rt pdfRequestWithoutPath =
     ([LoggerError ''Error en la herramienta extract_pdf_branding:'' invalidPdfParams],
      Some \<lparr>responseText = ''Error: '' @ mcpErrorMessage rt InvalidParams
                             ''Se requiere la ruta al archivo PDF (pdfPath)'',
            isError = True\<rparr>)
   \<and> registerDesignTokenTool rt now tokenRequestWithoutData =
     ([LoggerError ''Error en la herramienta generate_design_tokens:'' invalidTokenParams],
      Some \<lparr>responseText = ''Error: '' @ mcpErrorMessage rt InvalidParams
                             ''Se requieren los datos de branding (brandingData)'',
            isError = True\<rparr>)
   \<and> snd (registerPdfExtractorTool sampleRuntime pdfRequestWithoutArguments) =
       Some \<lparr>responseText = ''Error: Cannot destructure property of undefined'', isError = True\<rparr>
   \<and> snd (registerPdfExtractorTool sampleRuntime pdfRequestWithoutPath) =
       Some \<lparr>responseText = ''Error: MCP error -32602: Se requiere la ruta al archivo PDF (pdfPath)'',
             isError = True\<rparr>
   \<and> snd (registerDesignTokenTool sampleRuntime ''2024-01-01T00:00:00.000Z''
            tokenRequestWithoutArguments) =
       Some \<lparr>responseText = ''Error: Cannot destructure property of undefined'', isError = True\<rparr>
   \<and> snd (registerDesignTokenTool sampleRuntime ''2024-01-01T00:00:00.000Z''
            tokenRequestWithoutData) =
       Some \<lparr>responseText =
               ''Error: MCP error -32602: Se requieren los datos de branding (brandingData)'',
             isError = True\<rparr>"
proof -
  have 1: "registerPdfExtractorTool r pdfRequestWithoutArguments =
     ([LoggerError ''Error en la herramienta extract_pdf_branding:''
         (TypeError (destructureMessage r))],
      Some \<lparr>responseText = ''Error: '' @ destructureMessage r, isError = True\<rparr>)" for r
    by (simp add: registerPdfExtractorTool_def pdfExtractorTry_def pdfRequestWithoutArguments_def
        errorText_def)
  have 2: "registerDesignTokenTool r t tokenRequestWithoutArguments =
     ([LoggerError ''Error en la herramienta generate_design_tokens:''
         (TypeError (destructureMessage r))],
      Some \<lparr>responseText = ''Error: '' @ destructureMessage r, isError = True\<rparr>)" for r t
    by (simp add: registerDesignTokenTool_def designTokenTry_def tokenRequestWithoutArguments_def
        errorText_def)
  have 3: "TypeError (destructureMessage rt) \<noteq> invalidPdfParams"
    by (simp add: invalidPdfParams_def)
  have 4: "TypeError (destructureMessage rt) \<noteq> invalidTokenParams"
    by (simp add: invalidTokenParams_def)
  have 5: "registerPdfExtractorTool r pdfRequestWithoutPath =
     ([LoggerError ''Error en la herramienta extract_pdf_branding:'' invalidPdfParams],
      Some \<lparr>responseText = ''Error: '' @ mcpErrorMessage r InvalidParams
                             ''Se requiere la ruta al archivo PDF (pdfPath)'',
            isError = True\<rparr>)" for r
    by (rule pdf_missing_path [of _ "\<lparr>pdfPath = None, extractOptions = None\<rparr>"])
       (simp_all add: pdfRequestWithoutPath_def)
  have 6: "registerDesignTokenTool r t tokenRequestWithoutData =
     ([LoggerError ''Error en la herramienta generate_design_tokens:'' invalidTokenParams],
      Some \<lparr>responseText = ''Error: '' @ mcpErrorMessage r InvalidParams
                             ''Se requieren los datos de branding (brandingData)'',
            isError = True\<rparr>)" for r t
    by (rule token_missing_branding
          [of _ "\<lparr>brandingData = None, figmaData = None, format = Some ''css''\<rparr>"])
       (simp_all add: tokenRequestWithoutData_def)
  have 7: "snd (registerPdfExtractorTool sampleRuntime pdfRequestWithoutArguments) =
       Some \<lparr>responseText = ''Error: Cannot destructure property of undefined'', isError = True\<rparr>"
    unfolding 1 by (simp add: sampleRuntime_def)
  have 8: "snd (registerPdfExtractorTool sampleRuntime pdfRequestWithoutPath) =
       Some \<lparr>responseText = ''Error: MCP error -32602: Se requiere la ruta al archivo PDF (pdfPath)'',
             isError = True\<rparr>"
    unfolding 5 by (simp add: sampleRuntime_def)
  have 9: "snd (registerDesignTokenTool sampleRuntime ''2024-01-01T00:00:00.000Z''
            tokenRequestWithoutArguments) =
       Some \<lparr>responseText = ''Error: Cannot destructure property of undefined'', isError = True\<rparr>"
    unfolding 2 by (simp add: sampleRuntime_def)
  have 10: "snd (registerDesignTokenTool sampleRuntime ''2024-01-01T00:00:00.000Z''
            tokenRequestWithoutData) =
       Some \<lparr>responseText =
               ''Error: MCP error -32602: Se requieren los datos de branding (brandingData)'',
             isError = True\<rparr>"
    unfolding 6 by (simp add: sampleRuntime_def)
  show ?thesis
    by (intro conjI 1 2 3 4 5 6 7 8 9 10)
qed

section \<open>Reading JSON text\<close>

text \<open>
  \<open>JSON.parse\<close>, for the texts of the grammar without exponents and signs: white space,
  objects, arrays, strings with their escapes, the three literals and the unsigned decimal
  numbers. The recursion on the nesting of the value is counted down by a fuel, and
  \<open>parse\<close> gives the length of the text as fuel. A number is the decimal with the trailing zeros
  of its fraction removed. An escape \<open>\uXXXX\<close> beyond the code units of the model, a sign and
  an exponent are not read (the result is \<open>None\<close>, as for a text that is not JSON).
  The members of an object are set in the order of the text, a repeated key replacing the
  value it had; JavaScript enumerates keys that are array indices first and in ascending
  order, which is the order of the text for the ramps of the token set.
\<close>

definition isJsonSpace :: "char \<Rightarrow> bool" where
  "isJsonSpace c = (c \<in> set [CHR 0x20, CHR 0x09, CHR 0x0A, CHR 0x0D])"

definition skipWs :: "string \<Rightarrow> string" where
  "skipWs s = dropWhile isJsonSpace s"

definition hexValue :: "char \<Rightarrow> nat option" where
  "hexValue c =
     (let n = (of_char c :: nat)
      in if 48 \<le> n \<and> n \<le> 57 then Some (n - 48)
         else if 97 \<le> n \<and> n \<le> 102 then Some (n - 87)
         else if 65 \<le> n \<and> n \<le> 70 then Some (n - 55)
         else None)"

definition unescape :: "char \<Rightarrow> char option" where
  "unescape e =
     (if e = CHR 0x22 then Some (CHR 0x22)
      else if e = CHR 0x5C then Some (CHR 0x5C)
      else if e = CHR ''/'' then Some (CHR ''/'')
      else if e = CHR ''b'' then Some (CHR 0x08)
      else if e = CHR ''f'' then Some (CHR 0x0C)
      else if e = CHR ''n'' then Some (CHR 0x0A)
      else if e = CHR ''r'' then Some (CHR 0x0D)
      else if e = CHR ''t'' then Some (CHR 0x09)
      else None)"

definition unicodeEscape :: "string \<Rightarrow> char option" where
  "unicodeEscape hs =
     (case map hexValue hs of
        [Some a, Some b, Some c, Some d] \<Rightarrow>
          (let v = ((a * 16 + b) * 16 + c) * 16 + d
           in if v < 256 then Some (char_of v) else None)
      | _ \<Rightarrow> None)"

text \<open>The characters of a string after its opening quotation mark, up to the closing one.\<close>

function parseChars :: "string \<Rightarrow> (string \<times> string) option" where
  "parseChars [] = None"
| "parseChars (c # cs) =
     (if c = CHR 0x22 then Some ([], cs)
      else if c = CHR 0x5C then
        (case cs of
           [] \<Rightarrow> None
         | e # es \<Rightarrow>
             if e = CHR ''u'' then
               (case unicodeEscape (take 4 es) of
                  None \<Rightarrow> None
                | Some x \<Rightarrow> map_option (\<lambda>(s, r). (x # s, r)) (parseChars (drop 4 es)))
             else
               (case unescape e of
                  None \<Rightarrow> None
                | Some x \<Rightarrow> map_option (\<lambda>(s, r). (x # s, r)) (parseChars es)))
      else if (of_char c :: nat) < 0x20 then None
      else map_option (\<lambda>(s, r). (c # s, r)) (parseChars cs))"
  by pat_completeness auto
termination
  by (relation "measure length") auto

definition parseNumber :: "string \<Rightarrow> (number \<times> string) option" where
  "parseNumber s =
     (let whole = takeWhile isDigit s; r = dropWhile isDigit s
      in if whole = [] \<or> (1 < length whole \<and> hd whole = CHR ''0'') then None
         else (case r of
                 c # r' \<Rightarrow>
                   if c = CHR ''.'' then
                     (let frac = takeWhile isDigit r'; r'' = dropWhile isDigit r';
                          kept = rev (dropWhile (\<lambda>d. d = CHR ''0'') (rev frac))
                      in if frac = [] \<or> (case r'' of x # _ \<Rightarrow> x \<in> set ''eE'' | [] \<Rightarrow> False) then None
                         else Some (Number (parseInt (whole @ kept)) (length kept), r''))
                   else if c \<in> set ''eE'' then None
                   else Some (Number (parseInt whole) 0, r)
               | [] \<Rightarrow> Some (Number (parseInt whole) 0, r)))"

definition setMember :: "(string \<times> json) list \<Rightarrow> string \<times> json \<Rightarrow> (string \<times> json) list" where
  "setMember ms m = AList.update (fst m) (snd m) ms"

fun parseValue :: "nat \<Rightarrow> string \<Rightarrow> (json \<times> string) option"
  and parseItems :: "nat \<Rightarrow> string \<Rightarrow> (json list \<times> string) option"
  and parseMembers :: "nat \<Rightarrow> string \<Rightarrow> ((string \<times> json) list \<times> string) option" where
  "parseValue 0 s = None"
| "parseValue (Suc n) s =
     (case skipWs s of
        [] \<Rightarrow> None
      | c # cs \<Rightarrow>
          if c = CHR ''{'' then
            (case skipWs cs of
               [] \<Rightarrow> None
             | d # ds \<Rightarrow>
                 if d = CHR ''}'' then Some (JObject [], ds)
                 else map_option (\<lambda>(ms, r). (JObject (foldl setMember [] ms), r)) (parseMembers n cs))
          else if c = CHR ''['' then
            (case skipWs cs of
               [] \<Rightarrow> None
             | d # ds \<Rightarrow>
                 if d = CHR '']'' then Some (JArray [], ds)
                 else map_option (\<lambda>(xs, r). (JArray xs, r)) (parseItems n cs))
          else if c = CHR 0x22 then map_option (\<lambda>(x, r). (JString x, r)) (parseChars cs)
          else if take 4 (c # cs) = ''true'' then Some (JBool True, drop 4 (c # cs))
          else if take 5 (c # cs) = ''false'' then Some (JBool False, drop 5 (c # cs))
          else if take 4 (c # cs) = ''null'' then Some (JNull, drop 4 (c # cs))
          else if isDigit c then map_option (\<lambda>(x, r). (JNumber x, r)) (parseNumber (c # cs))
          else None)"
| "parseItems 0 s = None"
| "parseItems (Suc n) s =
     (case parseValue n s of
        None \<Rightarrow> None
      | Some (v, r) \<Rightarrow>
          (case skipWs r of
             [] \<Rightarrow> None
           | c # cs \<Rightarrow>
               if c = CHR '','' then map_option (\<lambda>(xs, r'). (v # xs, r')) (parseItems n cs)
               else if c = CHR '']'' then Some ([v], cs)
               else None))"
| "parseMembers 0 s = None"
| "parseMembers (Suc n) s =
     (case skipWs s of
        [] \<Rightarrow> None
      | q # qs \<Rightarrow>
          if q \<noteq> CHR 0x22 then None
          else (case parseChars qs of
                  None \<Rightarrow> None
                | Some (k, r) \<Rightarrow>
                    (case skipWs r of
                       [] \<Rightarrow> None
                     | c # cs \<Rightarrow>
                         if c \<noteq> CHR '':'' then None
                         else (case parseValue n cs of
                                 None \<Rightarrow> None
                               | Some (v, r') \<Rightarrow>
                                   (case skipWs r' of
                                      [] \<Rightarrow> None
                                    | d # ds \<Rightarrow>
                                        if d = CHR '','' then
                                          map_option (\<lambda>(ms, r''). ((k, v) # ms, r'')) (parseMembers n ds)
                                        else if d = CHR ''}'' then Some ([(k, v)], ds)
                                        else None)))))"

definition parse :: "string \<Rightarrow> json option" where
  "parse s =
     (case parseValue (length s) s of
        None \<Rightarrow> None
      | Some (v, r) \<Rightarrow> if skipWs r = [] then Some v else None)"

section \<open>Properties of the structured rendering\<close>

lemma hexValue_digitChar: "d < 16 \<Longrightarrow> hexValue (digitChar d) = Some d"
proof -
  assume "d < 16"
  then have "d \<in> {0, 1, 2, 3, 4, 5, 6, 7, 8, 9, 10, 11, 12, 13, 14, 15}" by auto arith
  then show ?thesis
    by (elim insertE) (simp_all add: digitChar_def hexValue_def)
qed

lemma unicodeEscape_control:
  assumes "(of_char c :: nat) < 0x20"
  shows "unicodeEscape [CHR ''0'', CHR ''0'', digitChar (of_char c div 16), digitChar (of_char c mod 16)]
           = Some c"
proof -
  let ?n = "of_char c :: nat"
  have d: "?n div 16 < 16" "?n mod 16 < 16" using assms by simp_all
  have z: "hexValue (CHR ''0'') = Some 0" by (simp add: hexValue_def)
  have "(((0::nat) * 16 + 0) * 16 + ?n div 16) * 16 + ?n mod 16 = ?n" by simp
  moreover have "?n < 256" using assms by simp
  ultimately show ?thesis
    by (simp add: unicodeEscape_def z hexValue_digitChar [OF d(1)] hexValue_digitChar [OF d(2)])
qed

lemma parseChars_quoteChar:
  "parseChars (quoteChar c @ s) = map_option (\<lambda>(x, r). (c # x, r)) (parseChars s)"
proof -
  consider (special) "c \<in> {CHR 0x08, CHR 0x09, CHR 0x0A, CHR 0x0C, CHR 0x0D, CHR 0x22, CHR 0x5C}"
    | (control) "c \<notin> {CHR 0x08, CHR 0x09, CHR 0x0A, CHR 0x0C, CHR 0x0D, CHR 0x22, CHR 0x5C}"
        "(of_char c :: nat) < 0x20"
    | (plain) "c \<notin> {CHR 0x08, CHR 0x09, CHR 0x0A, CHR 0x0C, CHR 0x0D, CHR 0x22, CHR 0x5C}"
        "\<not> (of_char c :: nat) < 0x20"
    by blast
  then show ?thesis
  proof cases
    case special
    then show ?thesis
      by (elim insertE) (simp_all add: quoteChar_def unescape_def)
  next
    case control
    then show ?thesis
      by (simp add: quoteChar_def unicodeEscape_control)
  next
    case plain
    then show ?thesis
      by (simp add: quoteChar_def)
  qed
qed

lemma parseChars_quoted:
  "parseChars (concat (map quoteChar s) @ CHR 0x22 # rest) = Some (s, rest)"
  by (induction s) (simp_all add: parseChars_quoteChar)

text \<open>What follows a printed value: the end of the text, a comma or a line feed.\<close>

definition closes :: "string \<Rightarrow> bool" where
  "closes r = (case r of [] \<Rightarrow> True | c # _ \<Rightarrow> c = CHR '','' \<or> c = CHR 0x0A)"

definition numberReadsBack :: "number \<Rightarrow> bool" where
  "numberReadsBack n = (\<forall>r. closes r \<longrightarrow> parseNumber (numberToString n @ r) = Some (n, r))"

fun wellFormed :: "json \<Rightarrow> bool" where
  "wellFormed (JNumber n) = numberReadsBack n"
| "wellFormed (JArray xs) = list_all wellFormed xs"
| "wellFormed (JObject ms) = (distinct (map fst ms) \<and> list_all (\<lambda>m. wellFormed (snd m)) ms)"
| "wellFormed _ = True"

fun need :: "json \<Rightarrow> nat"
  and needItems :: "json list \<Rightarrow> nat"
  and needMembers :: "(string \<times> json) list \<Rightarrow> nat" where
  "need (JArray xs) = Suc (needItems xs)"
| "need (JObject ms) = Suc (needMembers ms)"
| "need JNull = 1"
| "need (JBool b) = 1"
| "need (JNumber n) = 1"
| "need (JString s) = 1"
| "needItems [] = 0"
| "needItems (x # xs) = Suc (need x + needItems xs)"
| "needMembers [] = 0"
| "needMembers (m # ms) = Suc (need (snd m) + needMembers ms)"

definition valueStart :: "char \<Rightarrow> bool" where
  "valueStart c = (c \<in> set ''{[tfn0123456789'' \<or> c = CHR 0x22)"

lemma valueStart_facts:
  "valueStart c \<Longrightarrow> \<not> isJsonSpace c \<and> c \<noteq> CHR '']'' \<and> c \<noteq> CHR ''}''"
  by (auto simp: valueStart_def isJsonSpace_def)

lemma skipWs_indentation [simp]: "skipWs (indentation k @ s) = skipWs s"
  by (induction k) (simp_all add: skipWs_def indentation_def isJsonSpace_def)

lemma skipWs_newline [simp]: "skipWs (CHR 0x0A # s) = skipWs s"
  by (simp add: skipWs_def isJsonSpace_def)

lemma skipWs_space [simp]: "skipWs (CHR '' '' # s) = skipWs s"
  by (simp add: skipWs_def isJsonSpace_def)

lemma skipWs_start: "\<not> isJsonSpace c \<Longrightarrow> skipWs (c # s) = c # s"
  by (simp add: skipWs_def)

lemma closes_not_digit: "closes r \<Longrightarrow> takeWhile isDigit r = [] \<and> dropWhile isDigit r = r"
  by (cases r) (auto simp: closes_def isDigit_def)


lemma parseNumber_no_digit: "takeWhile isDigit s = [] \<Longrightarrow> parseNumber s = None"
  by (simp add: parseNumber_def)

lemma numberToString_start:
  assumes "numberReadsBack n"
  shows "\<exists>c cs. numberToString n = c # cs \<and> isDigit c"
proof -
  have "closes []" by (simp add: closes_def)
  with assms have p: "parseNumber (numberToString n @ []) = Some (n, [])"
    unfolding numberReadsBack_def by blast
  have "takeWhile isDigit (numberToString n) \<noteq> []"
  proof
    assume "takeWhile isDigit (numberToString n) = []"
    from parseNumber_no_digit [OF this] p show False by simp
  qed
  then show ?thesis
    by (cases "numberToString n") (auto split: if_splits)
qed

lemma quote_start: "quote s = CHR 0x22 # concat (map quoteChar s) @ [CHR 0x22]"
  by (simp add: quote_def)

lemma valueStart_quote: "valueStart (CHR 0x22)"
  by (simp add: valueStart_def)


lemma isDigit_valueStart: "isDigit c \<Longrightarrow> valueStart c"
  by (auto simp: valueStart_def isDigit_def)

lemma stringify_start:
  assumes "wellFormed v"
  shows "\<exists>c cs. stringify ind v = c # cs \<and> valueStart c"
proof (cases v)
  case JNull
  then show ?thesis by (simp add: valueStart_def)
next
  case (JBool b)
  then show ?thesis by (simp add: valueStart_def)
next
  case (JNumber n)
  with assms have "numberReadsBack n" by simp
  from numberToString_start [OF this] isDigit_valueStart JNumber show ?thesis by auto
next
  case (JString s)
  then show ?thesis by (simp add: quote_start valueStart_quote)
next
  case (JArray xs)
  then show ?thesis by (cases xs) (simp_all add: valueStart_def)
next
  case (JObject ms)
  then show ?thesis by (cases ms) (simp_all add: valueStart_def)
qed

lemma skipWs_idem [simp]: "skipWs (skipWs s) = skipWs s"
  by (simp add: skipWs_def dropWhile_idem)

lemma parseValue_skipWs: "parseValue n s = parseValue n (skipWs s)"
  by (cases n) simp_all

lemma parseItems_skipWs: "parseItems n s = parseItems n (skipWs s)"
  by (cases n) (simp_all add: parseValue_skipWs [symmetric])

lemma parseMembers_skipWs: "parseMembers n s = parseMembers n (skipWs s)"
  by (cases n) simp_all

lemma parseValue_indented [simp]:
  "parseValue n (indentation k @ s) = parseValue n s"
  "parseValue n (CHR 0x0A # s) = parseValue n s"
  "parseValue n (CHR '' '' # s) = parseValue n s"
  by (subst parseValue_skipWs, subst (2) parseValue_skipWs, simp)+

lemma parseItems_indented [simp]:
  "parseItems n (indentation k @ s) = parseItems n s"
  "parseItems n (CHR 0x0A # s) = parseItems n s"
  by (subst parseItems_skipWs, subst (2) parseItems_skipWs, simp)+

lemma parseMembers_indented [simp]:
  "parseMembers n (indentation k @ s) = parseMembers n s"
  "parseMembers n (CHR 0x0A # s) = parseMembers n s"
  by (subst parseMembers_skipWs, subst (2) parseMembers_skipWs, simp)+

lemma parseValue_string:
  "parseValue (Suc n) (quote s @ r) = Some (JString s, r)"
  by (simp add: quote_start skipWs_start isJsonSpace_def parseChars_quoted)

lemma parseValue_null: "parseValue (Suc n) (''null'' @ r) = Some (JNull, r)"
  by (simp add: skipWs_start isJsonSpace_def)

lemma parseValue_true: "parseValue (Suc n) (''true'' @ r) = Some (JBool True, r)"
  by (simp add: skipWs_start isJsonSpace_def)

lemma parseValue_false: "parseValue (Suc n) (''false'' @ r) = Some (JBool False, r)"
  by (simp add: skipWs_start isJsonSpace_def)

lemma parseValue_empty_array: "parseValue (Suc n) (''[]'' @ r) = Some (JArray [], r)"
  by (simp add: skipWs_start isJsonSpace_def)

lemma parseValue_empty_object: "parseValue (Suc n) (''{}'' @ r) = Some (JObject [], r)"
  by (simp add: skipWs_start isJsonSpace_def)

lemma parseValue_array:
  "skipWs s = c # cs \<Longrightarrow> c \<noteq> CHR '']'' \<Longrightarrow>
     parseValue (Suc n) (CHR ''['' # s) = map_option (\<lambda>(xs, r). (JArray xs, r)) (parseItems n s)"
  by (simp add: skipWs_start isJsonSpace_def)

lemma parseValue_object:
  "skipWs s = c # cs \<Longrightarrow> c \<noteq> CHR ''}'' \<Longrightarrow>
     parseValue (Suc n) (CHR ''{'' # s)
       = map_option (\<lambda>(ms, r). (JObject (foldl setMember [] ms), r)) (parseMembers n s)"
  by (simp add: skipWs_start isJsonSpace_def)

lemma parseValue_number:
  assumes "numberReadsBack x" and "closes r"
  shows "parseValue (Suc n) (numberToString x @ r) = Some (JNumber x, r)"
proof -
  from numberToString_start [OF assms(1)] obtain c cs where
    c: "numberToString x = c # cs" "isDigit c" by blast
  from assms have "parseNumber (numberToString x @ r) = Some (x, r)"
    unfolding numberReadsBack_def by blast
  then have p: "parseNumber (c # cs @ r) = Some (x, r)"
    by (simp add: c(1))
  from c(2) have d: "c \<in> set ''0123456789''" by (simp add: isDigit_def)
  then have "\<not> isJsonSpace c" "c \<noteq> CHR ''{''" "c \<noteq> CHR ''[''" "c \<noteq> CHR 0x22"
    "c \<noteq> CHR ''t''" "c \<noteq> CHR ''f''" "c \<noteq> CHR ''n''"
    by (auto simp: isJsonSpace_def)
  then show ?thesis
    using p c(2) by (simp add: c(1) skipWs_start)
qed

lemma skipWs_value:
  assumes "wellFormed v"
  shows "\<exists>c cs. skipWs (indentation k @ stringify ind v @ t) = c # cs
           \<and> c \<noteq> CHR '']'' \<and> c \<noteq> CHR ''}''"
proof -
  from stringify_start [OF assms, of ind] obtain c cs where
    c: "stringify ind v = c # cs" "valueStart c" by blast
  from valueStart_facts [OF c(2)] show ?thesis
    by (simp add: c(1) skipWs_start)
qed

lemma closes_simps [simp]:
  "closes []" "closes (CHR '','' # s)" "closes (CHR 0x0A # s)"
  by (simp_all add: closes_def)

lemma skipWs_close [simp]:
  "skipWs (CHR '']'' # t) = CHR '']'' # t"
  "skipWs (CHR ''}'' # t) = CHR ''}'' # t"
  "skipWs (CHR '','' # t) = CHR '','' # t"
  "skipWs (CHR '':'' # t) = CHR '':'' # t"
  "skipWs (CHR 0x22 # t) = CHR 0x22 # t"
  by (simp_all add: skipWs_start isJsonSpace_def)

lemma setMember_distinct:
  "distinct (map fst (acc @ ms)) \<Longrightarrow> foldl setMember acc ms = acc @ ms"
proof (induction ms arbitrary: acc)
  case Nil
  then show ?case by simp
next
  case (Cons m ms)
  from Cons.prems have "fst m \<notin> fst ` set acc" by auto
  then have "AList.update (fst m) (snd m) acc = acc @ [m]"
    by (induction acc) auto
  then show ?case
    using Cons.IH [of "acc @ [m]"] Cons.prems by (simp add: setMember_def)
qed

lemma items_start:
  assumes "wellFormed y"
  shows "\<exists>c cs. skipWs (CHR 0x0A # stringifyItems k (y # ys) @ t) = c # cs \<and> c \<noteq> CHR '']''"
proof (cases ys)
  case Nil
  from skipWs_value [OF assms, of k k t] show ?thesis
    using Nil by auto
next
  case (Cons z zs)
  from skipWs_value [OF assms, of k k "CHR '','' # CHR 0x0A # stringifyItems k (z # zs) @ t"]
  show ?thesis using Cons by auto
qed

lemma members_start:
  "\<exists>c cs. skipWs (CHR 0x0A # stringifyMembers k (m # ms) @ t) = c # cs \<and> c \<noteq> CHR ''}''"
  by (cases m; cases ms) (simp_all add: quote_start)

lemma json_round_trip:
  "wellFormed v \<Longrightarrow> need v \<le> n \<Longrightarrow> closes r \<Longrightarrow>
     parseValue n (stringify ind v @ r) = Some (v, r)"
  "xs \<noteq> [] \<Longrightarrow> list_all wellFormed xs \<Longrightarrow> needItems xs \<le> n \<Longrightarrow>
     parseItems n (stringifyItems ind xs @ CHR 0x0A # indentation k @ CHR '']'' # t) = Some (xs, t)"
  "ms \<noteq> [] \<Longrightarrow> list_all (\<lambda>m. wellFormed (snd m)) ms \<Longrightarrow> needMembers ms \<le> n \<Longrightarrow>
     parseMembers n (stringifyMembers ind ms @ CHR 0x0A # indentation k @ CHR ''}'' # t) = Some (ms, t)"
proof (induction v and xs and ms arbitrary: n r ind and n ind k t and n ind k t
    rule: need_needItems_needMembers.induct)
  case (1 xs)
  from "1.prems"(2) obtain m where n: "n = Suc m" "needItems xs \<le> m" by (cases n) auto
  show ?case
  proof (cases xs)
    case Nil
    then show ?thesis using parseValue_empty_array [of m r] by (simp add: n)
  next
    case (Cons y ys)
    from "1.prems"(1) Cons have wy: "wellFormed y" by simp
    from items_start [OF wy, of "ind + 2" ys "CHR 0x0A # indentation ind @ CHR '']'' # r"] Cons
    obtain c cs where
      "skipWs (CHR 0x0A # stringifyItems (ind + 2) xs @ CHR 0x0A # indentation ind @ CHR '']'' # r) = c # cs"
      "c \<noteq> CHR '']''"
      by auto
    note pv = parseValue_array [OF this, of m]
    have pm: "parseItems m (stringifyItems (ind + 2) xs @ CHR 0x0A # indentation ind @ CHR '']'' # r)
        = Some (xs, r)"
      using "1.IH" [of m "ind + 2" ind r] Cons "1.prems"(1) n(2) by simp
    show ?thesis
      using pv pm Cons by (simp add: n(1) del: parseValue.simps)
  qed
next
  case (2 ms)
  from "2.prems"(2) obtain m where n: "n = Suc m" "needMembers ms \<le> m" by (cases n) auto
  show ?case
  proof (cases ms)
    case Nil
    then show ?thesis using parseValue_empty_object [of m r] by (simp add: n)
  next
    case (Cons y ys)
    from members_start [of "ind + 2" y ys "CHR 0x0A # indentation ind @ CHR ''}'' # r"] Cons
    obtain c cs where
      "skipWs (CHR 0x0A # stringifyMembers (ind + 2) ms @ CHR 0x0A # indentation ind @ CHR ''}'' # r) = c # cs"
      "c \<noteq> CHR ''}''" by auto
    note pv = parseValue_object [OF this, of m]
    have fm: "foldl setMember [] ms = ms"
      using setMember_distinct [of "[]" ms] "2.prems"(1) by simp
    have pm: "parseMembers m (stringifyMembers (ind + 2) ms @ CHR 0x0A # indentation ind @ CHR ''}'' # r)
        = Some (ms, r)"
      using "2.IH" [of m "ind + 2" ind r] Cons "2.prems"(1) n(2) by simp
    show ?thesis
      using pv pm fm Cons by (simp add: n(1) del: parseValue.simps)
  qed
next
  case 3
  then obtain m where "n = Suc m" by (cases n) auto
  then show ?case using parseValue_null [of m r] by simp
next
  case (4 b)
  then obtain m where "n = Suc m" by (cases n) auto
  then show ?case using parseValue_true [of m r] parseValue_false [of m r] by simp
next
  case (5 x)
  then obtain m where "n = Suc m" by (cases n) auto
  then show ?case using parseValue_number [of x r m] "5.prems" by simp
next
  case (6 s)
  then obtain m where "n = Suc m" by (cases n) auto
  then show ?case using parseValue_string [of m s r] by simp
next
  case 7
  then show ?case by simp
next
  case (8 x xs)
  from "8.prems"(3) obtain m where n: "n = Suc m" "need x \<le> m" "needItems xs \<le> m"
    by (cases n) auto
  from "8.prems"(2) have w: "wellFormed x" "list_all wellFormed xs" by simp_all
  show ?case
  proof (cases xs)
    case Nil
    have "parseValue m (stringify ind x @ CHR 0x0A # indentation k @ CHR '']'' # t)
        = Some (x, CHR 0x0A # indentation k @ CHR '']'' # t)"
      by (rule "8.IH"(1) [OF w(1) n(2)]) simp
    then show ?thesis using Nil by (simp add: n(1))
  next
    case (Cons y ys)
    have "parseValue m (stringify ind x @ CHR '','' # CHR 0x0A # stringifyItems ind xs
              @ CHR 0x0A # indentation k @ CHR '']'' # t)
        = Some (x, CHR '','' # CHR 0x0A # stringifyItems ind xs @ CHR 0x0A # indentation k @ CHR '']'' # t)"
      by (rule "8.IH"(1) [OF w(1) n(2)]) simp
    moreover have "parseItems m (stringifyItems ind xs @ CHR 0x0A # indentation k @ CHR '']'' # t)
        = Some (xs, t)"
      by (rule "8.IH"(2) [OF _ w(2) n(3)]) (simp add: Cons)
    ultimately show ?thesis using Cons by (simp add: n(1))
  qed
next
  case 9
  then show ?case by simp
next
  case (10 m ms)
  obtain key val where m: "m = (key, val)" by (cases m)
  from "10.prems"(3) obtain j where n: "n = Suc j" "need val \<le> j" "needMembers ms \<le> j"
    by (cases n) (auto simp: m)
  from "10.prems"(2) have w: "wellFormed val" "list_all (\<lambda>m. wellFormed (snd m)) ms"
    by (simp_all add: m)
  show ?case
  proof (cases ms)
    case Nil
    have "parseValue j (stringify ind val @ CHR 0x0A # indentation k @ CHR ''}'' # t)
        = Some (val, CHR 0x0A # indentation k @ CHR ''}'' # t)"
      using "10.IH"(1) [of j "CHR 0x0A # indentation k @ CHR ''}'' # t" ind] w(1) n(2)
      by (simp add: m)
    then show ?thesis
      using Nil by (simp add: n(1) m quote_start parseChars_quoted)
  next
    case (Cons y ys)
    have "parseValue j (stringify ind val @ CHR '','' # CHR 0x0A # stringifyMembers ind ms
              @ CHR 0x0A # indentation k @ CHR ''}'' # t)
        = Some (val, CHR '','' # CHR 0x0A # stringifyMembers ind ms
              @ CHR 0x0A # indentation k @ CHR ''}'' # t)"
      using "10.IH"(1) [of j _ ind] w(1) n(2) by (simp add: m)
    moreover have "parseMembers j (stringifyMembers ind ms @ CHR 0x0A # indentation k @ CHR ''}'' # t)
        = Some (ms, t)"
      by (rule "10.IH"(2) [OF _ w(2) n(3)]) (simp add: Cons)
    ultimately show ?thesis
      using Cons by (simp add: n(1) m quote_start parseChars_quoted)
  qed
qed

lemma toStringRadix_nonempty: "toStringRadix b n \<noteq> []"
  by (subst toStringRadix.simps) simp

lemma numberToString_nonempty: "numberToString x \<noteq> []"
  by (cases x) (simp add: numberToString_def Let_def toStringRadix_nonempty)

lemma need_le_length:
  "need v \<le> length (stringify ind v)"
  "needItems xs \<le> length (stringifyItems ind xs) + 1"
  "needMembers ms \<le> length (stringifyMembers ind ms) + 1"
proof (induction v and xs and ms arbitrary: ind and ind and ind
    rule: need_needItems_needMembers.induct)
  case (1 xs)
  show ?case using "1.IH" [of "ind + 2"] by (cases xs) simp_all
next
  case (2 ms)
  show ?case using "2.IH" [of "ind + 2"] by (cases ms) simp_all
next
  case (5 n)
  then show ?case
    using numberToString_nonempty [of n] by (cases "numberToString n") simp_all
next
  case (6 s)
  then show ?case by (simp add: quote_def)
next
  case (8 x xs)
  show ?case using "8.IH"(1) [of ind] "8.IH"(2) [of ind] by (cases xs) simp_all
next
  case (10 m ms)
  show ?case
    using "10.IH"(1) [of ind] "10.IH"(2) [of ind] by (cases m; cases ms) simp_all
qed simp_all

lemma parse_stringify:
  assumes "wellFormed v"
  shows "parse (stringify 0 v) = Some v"
proof -
  have "parseValue (length (stringify 0 v)) (stringify 0 v @ []) = Some (v, [])"
    by (rule json_round_trip(1) [OF assms need_le_length(1)]) simp
  then show ?thesis by (simp add: parse_def skipWs_def)
qed

lemma takeWhile_digits_closes:
  "closes r \<Longrightarrow> list_all isDigit ds \<Longrightarrow>
     takeWhile isDigit (ds @ r) = ds \<and> dropWhile isDigit (ds @ r) = r"
proof (induction ds)
  case Nil
  then show ?case using closes_not_digit [of r] by simp
next
  case (Cons d ds)
  then show ?case by simp
qed

lemma parseNumber_integer:
  assumes "closes r" and "list_all isDigit ds" and "ds \<noteq> []" and "hd ds \<noteq> CHR ''0''"
  shows "parseNumber (ds @ r) = Some (Number (parseInt ds) 0, r)"
proof -
  from takeWhile_digits_closes [OF assms(1,2)] have
    t: "takeWhile isDigit (ds @ r) = ds" "dropWhile isDigit (ds @ r) = r" by simp_all
  show ?thesis
    using assms(1,3,4) unfolding parseNumber_def Let_def t
    by (cases r) (auto simp: closes_def)
qed

lemma closes_no_exponent:
  "closes r \<Longrightarrow> \<not> (case r of x # _ \<Rightarrow> x \<in> set ''eE'' | [] \<Rightarrow> False)"
  by (cases r) (auto simp: closes_def)

lemma parseNumber_one_decimal:
  assumes "closes r" and "isDigit a" and "isDigit b" and "b \<noteq> CHR ''0''"
  shows "parseNumber ([a, CHR ''.'', b] @ r) = Some (Number (parseInt [a, b]) 1, r)"
proof -
  have w: "takeWhile isDigit ([a, CHR ''.'', b] @ r) = [a]"
    "dropWhile isDigit ([a, CHR ''.'', b] @ r) = CHR ''.'' # b # r"
    using assms(2) by (simp_all add: isDigit_def)
  from takeWhile_digits_closes [OF assms(1), of "[b]"] assms(3) have
    f: "takeWhile isDigit (b # r) = [b]" "dropWhile isDigit (b # r) = r" by simp_all
  show ?thesis
    unfolding parseNumber_def Let_def w
    using assms(3,4) closes_no_exponent [OF assms(1)] closes_not_digit [OF assms(1)] by simp
qed

lemma baseline_numbers_read_back:
  "numberReadsBack (Number 300 0)" "numberReadsBack (Number 400 0)"
  "numberReadsBack (Number 500 0)" "numberReadsBack (Number 600 0)"
  "numberReadsBack (Number 700 0)" "numberReadsBack (Number 800 0)"
  "numberReadsBack (Number 12 1)" "numberReadsBack (Number 15 1)"
  "numberReadsBack (Number 2 0)"
  unfolding numberReadsBack_def numberToString_baseline
  using parseNumber_integer [of _ "''300''"] parseNumber_integer [of _ "''400''"]
    parseNumber_integer [of _ "''500''"] parseNumber_integer [of _ "''600''"]
    parseNumber_integer [of _ "''700''"] parseNumber_integer [of _ "''800''"]
    parseNumber_integer [of _ "''2''"]
    parseNumber_one_decimal [of _ "CHR ''1''" "CHR ''2''"]
    parseNumber_one_decimal [of _ "CHR ''1''" "CHR ''5''"]
  by (simp_all add: isDigit_def parseInt_def)

lemma wellFormed_stringObject: "wellFormed (stringObject kvs) = distinct (map fst kvs)"
  by (simp add: stringObject_def comp_def split_def list_all_iff)

lemma wellFormed_numberObject:
  "wellFormed (numberObject kvs) = (distinct (map fst kvs) \<and> list_all numberReadsBack (map snd kvs))"
  by (simp add: numberObject_def comp_def split_def list_all_iff)

lemma update_keys_present:
  "k \<in> fst ` set al \<Longrightarrow> map fst (AList.update k v al) = map fst al"
  by (induction al) auto

lemma ramp_keys:
  "map fst (primary (convertColorsToTokens cs)) = map fst (primary generateDefaultColorTokens)"
  "map fst (secondary (convertColorsToTokens cs)) = map fst (secondary generateDefaultColorTokens)"
  "map fst (accent (convertColorsToTokens cs)) = map fst (accent generateDefaultColorTokens)"
  unfolding primary_convertColorsToTokens secondary_convertColorsToTokens
    accent_convertColorsToTokens
  by (simp_all add: update_keys_present generateDefaultColorTokens_def split: option.splits)

lemma family_keys:
  "distinct (map fst (families (convertTypographyToTokens ts)))"
  unfolding families_convertTypographyToTokens by (simp split: option.splits)

lemma wellFormed_tokens: "wellFormed (tokensToJson (generateDesignTokens now p))"
proof -
  let ?T = "generateDesignTokens now p"
  have c: "colors' ?T = convertColorsToTokens (colors p)"
    and t: "typography' ?T = convertTypographyToTokens (typography p)"
    and s: "spacing ?T = Some generateDefaultSpacingTokens"
    and m: "map fst (metadata ?T) = [''brandName'', ''version'', ''createdAt'']"
    by (simp_all add: generateDesignTokens_def Let_def)
  have 1: "wellFormed (stringObject (primary (colors' ?T)))"
    "wellFormed (stringObject (secondary (colors' ?T)))"
    "wellFormed (stringObject (accent (colors' ?T)))"
    "wellFormed (stringObject (neutral (colors' ?T)))"
    "wellFormed (stringObject (feedback (colors' ?T)))"
    unfolding c wellFormed_stringObject ramp_keys neutral_convertColorsToTokens
    by (simp_all add: generateDefaultColorTokens_def)
  have 2: "wellFormed (stringObject (families (typography' ?T)))"
    "wellFormed (numberObject (weights (typography' ?T)))"
    "wellFormed (stringObject (sizes (typography' ?T)))"
    "wellFormed (numberObject (lineHeights (typography' ?T)))"
    unfolding t wellFormed_stringObject wellFormed_numberObject scales_convertTypographyToTokens
    by (simp_all add: family_keys generateDefaultTypographyTokens_def baseline_numbers_read_back
        baseline_numbers_read_back [simplified])
  have 3: "wellFormed (stringObject generateDefaultSpacingTokens)"
    "wellFormed (stringObject (metadata ?T))"
    unfolding wellFormed_stringObject m by (simp_all add: generateDefaultSpacingTokens_def)
  show ?thesis
    unfolding tokensToJson_def s using 1 2 3 by simp
qed

lemma stringObject_inject: "stringObject a = stringObject b \<Longrightarrow> a = b"
proof -
  assume "stringObject a = stringObject b"
  then have "map (\<lambda>(k, v). (k, JString v)) a = map (\<lambda>(k, v). (k, JString v)) b"
    by (simp add: stringObject_def)
  moreover have "inj (\<lambda>(k :: string, v). (k, JString v))"
    by (auto simp: inj_on_def)
  ultimately show ?thesis by (simp add: inj_map_eq_map)
qed

lemma numberObject_inject: "numberObject a = numberObject b \<Longrightarrow> a = b"
proof -
  assume "numberObject a = numberObject b"
  then have "map (\<lambda>(k, v). (k, JNumber v)) a = map (\<lambda>(k, v). (k, JNumber v)) b"
    by (simp add: numberObject_def)
  moreover have "inj (\<lambda>(k :: string, v). (k, JNumber v))"
    by (auto simp: inj_on_def)
  ultimately show ?thesis by (simp add: inj_map_eq_map)
qed

lemma tokensToJson_inject: "inj tokensToJson"
proof (rule injI)
  fix a b :: DesignTokens
  assume eq: "tokensToJson a = tokensToJson b"
  then have c: "colors' a = colors' b" and t: "typography' a = typography' b"
    by (auto simp: tokensToJson_def dest!: stringObject_inject numberObject_inject)
  from eq have "(case spacing a of None \<Rightarrow> [] | Some sp \<Rightarrow> [(''spacing'', stringObject sp)])
        @ [(''metadata'', stringObject (metadata a))]
      = (case spacing b of None \<Rightarrow> [] | Some sp \<Rightarrow> [(''spacing'', stringObject sp)])
        @ [(''metadata'', stringObject (metadata b))]"
    by (simp add: tokensToJson_def)
  then have "spacing a = spacing b \<and> metadata a = metadata b"
    by (cases "spacing a"; cases "spacing b") (auto dest!: stringObject_inject)
  with c t show "a = b" by simp
qed

text \<open>
  C7: for every profile and instant, reading the text that \<open>convertTokensToFormat\<close> gives for
  the format \<open>json\<close> returns the object of the synthesized token set: the same keys in the
  same order with the same strings and numbers. No two token sets have the same object, so
  the object read back is that of the original token set and of no other.
\<close>

theorem c7_structured_round_trip:
  "parse (convertTokensToFormat (generateDesignTokens now p) ''json'')
     = Some (tokensToJson (generateDesignTokens now p))
   \<and> inj tokensToJson"
  using parse_stringify [OF wellFormed_tokens] tokensToJson_inject
  by (simp add: convertTokensToFormat_def)

end
